theory Spec2Isabelle
  imports Main "HOL-Library.Word"
begin

unbundle bit_operations_syntax

section \<open>Python values\<close>

text \<open>
  The tools of \<^verbatim>\<open>spotify_mcp_server.py\<close> receive typed arguments, hand them to one
  method of the spotipy client and return what comes back, which is whatever the JSON
  decoder of the client produced: \<^verbatim>\<open>None\<close>, a boolean, a number, a string, a list or a
  dict.  \<open>pyval\<close> is that universe.  A dict is an association list in insertion order; a
  float is carried as its IEEE-754 bit pattern, since no tool computes with it.
\<close>

type_synonym float64 = "64 word"

datatype pyval =
    PNone
  | PBool bool
  | PInt int
  | PFloat float64
  | PStr string
  | PList "pyval list"
  | PTuple "pyval list"
  | PDict "(string \<times> pyval) list"

text \<open>
  Truth-value testing, the test behind \<^verbatim>\<open>x if x else y\<close>: \<^verbatim>\<open>None\<close>, \<^verbatim>\<open>False\<close>, a zero
  of a numeric type (both float zeros) and an empty string, list, tuple or dict are false.
\<close>

fun truthy :: "pyval \<Rightarrow> bool" where
  "truthy PNone = False"
| "truthy (PBool b) = b"
| "truthy (PInt i) = (i \<noteq> 0)"
| "truthy (PFloat x) = (x AND 0x7FFFFFFFFFFFFFFF \<noteq> 0)"
| "truthy (PStr s) = (s \<noteq> [])"
| "truthy (PList xs) = (xs \<noteq> [])"
| "truthy (PTuple xs) = (xs \<noteq> [])"
| "truthy (PDict kvs) = (kvs \<noteq> [])"

text \<open>\<^verbatim>\<open>isinstance(v, dict)\<close> and \<^verbatim>\<open>key in v\<close> for a dict \<open>v\<close>.\<close>

fun is_mapping :: "pyval \<Rightarrow> bool" where
  "is_mapping (PDict kvs) = True"
| "is_mapping v = False"

fun has_key :: "string \<Rightarrow> pyval \<Rightarrow> bool" where
  "has_key k (PDict kvs) = (k \<in> fst ` set kvs)"
| "has_key k v = False"

text \<open>
  An argument annotated \<^verbatim>\<open>Optional[T]\<close> is \<^verbatim>\<open>None\<close> or a \<open>T\<close>; one annotated
  \<^verbatim>\<open>List[str]\<close> is a list of strings.
\<close>

fun optional :: "('a \<Rightarrow> pyval) \<Rightarrow> 'a option \<Rightarrow> pyval" where
  "optional f None = PNone"
| "optional f (Some x) = f x"

definition str_list :: "string list \<Rightarrow> pyval" where
  "str_list xs = PList (map PStr xs)"

text \<open>
  \<^verbatim>\<open>s.split(sep)\<close> for a one-character separator: the pieces between the separators,
  empty pieces kept, so that \<^verbatim>\<open>"a,,b".split(",")\<close> is \<^verbatim>\<open>["a", "", "b"]\<close> and
  \<^verbatim>\<open>"".split(",")\<close> is \<^verbatim>\<open>[""]\<close>.
\<close>

fun split :: "string \<Rightarrow> char \<Rightarrow> string list" where
  "split [] sep = ['''']"
| "split (c # cs) sep =
     (if c = sep then [] # split cs sep
      else (case split cs sep of [] \<Rightarrow> [c] # [] | piece # pieces \<Rightarrow> (c # piece) # pieces))"

section \<open>The spotipy client library\<close>

text \<open>
  The library is not part of the repository, so it is a parameter.  What a tool can see of
  it is: the constructor \<^verbatim>\<open>spotipy.Spotify(auth=token)\<close>, which returns a client object
  or raises, and a method call on a client, given by the method's name, its positional
  arguments and its keyword arguments, which returns a value or raises.  Both act on the
  world outside the program (the network, the service), a state \<open>'w\<close> that is threaded
  through every call.  A raised exception is an instance of \<^verbatim>\<open>Exception\<close>, the class the
  handlers of the tools name; \<open>str\<close> is what \<^verbatim>\<open>str(e)\<close> returns for it.
\<close>

datatype exception = Exception (str: string)

type_synonym ('w, 'a) io = "'w \<Rightarrow> (exception + 'a) \<times> 'w"

record ('h, 'w) spotipy =
  Spotify :: "string \<Rightarrow> ('w, 'h) io"
  call_method :: "'h \<Rightarrow> string \<Rightarrow> pyval list \<Rightarrow> (string \<times> pyval) list \<Rightarrow> ('w, pyval) io"

text \<open>
  Statements in sequence, where a raise skips what follows, and \<^verbatim>\<open>try: ... except
  Exception as e: return ...\<close> around a body that ends in \<^verbatim>\<open>return\<close>.
\<close>

definition return_io :: "'a \<Rightarrow> ('w, 'a) io" where
  "return_io a = (\<lambda>w. (Inr a, w))"

definition bind_io :: "('w, 'a) io \<Rightarrow> ('a \<Rightarrow> ('w, 'b) io) \<Rightarrow> ('w, 'b) io" where
  "bind_io m f = (\<lambda>w. case m w of (Inl e, w') \<Rightarrow> (Inl e, w') | (Inr a, w') \<Rightarrow> f a w')"

definition try_except :: "('w, 'a) io \<Rightarrow> (exception \<Rightarrow> 'a) \<Rightarrow> 'w \<Rightarrow> 'a \<times> 'w" where
  "try_except body handler = (\<lambda>w. case body w of (Inl e, w') \<Rightarrow> (handler e, w') | (Inr r, w') \<Rightarrow> (r, w'))"

section \<open>The tools\<close>

text \<open>
  One definition for each function of \<^verbatim>\<open>spotify_mcp_server.py\<close>, under its name and in
  the order of the file, with the parameters of the \<^verbatim>\<open>def\<close> at the types of their
  annotations.  The parameters \<^verbatim>\<open>id\<close>, \<^verbatim>\<open>type\<close>, \<^verbatim>\<open>total\<close> and \<^verbatim>\<open>fields\<close> are
  written \<open>id_p\<close>, \<open>type_p\<close>, \<open>total_p\<close> and \<open>fields_p\<close>, their names being taken
  in HOL; the keyword under which a value is passed to the library is the one of the
  source.
\<close>

definition get_spotify_client :: "('h, 'w) spotipy \<Rightarrow> string \<Rightarrow> ('w, 'h) io" where
  "get_spotify_client sp token = Spotify sp token"

definition get_album_info ::
    "('h, 'w) spotipy \<Rightarrow> string \<Rightarrow> string \<Rightarrow>
     string option \<Rightarrow> 'w \<Rightarrow> pyval \<times> 'w" where
  "get_album_info sp token album_id market =
    try_except
     (bind_io (get_spotify_client sp token) (\<lambda>spotify.
      bind_io (call_method sp spotify ''album''
         [PStr album_id]
         [(''market'', optional PStr market)]) (\<lambda>album.
      return_io album)))
     (\<lambda>e. PDict [(''error'', PStr (''Failed to get album info: '' @ str e))])"

definition get_album_tracks ::
    "('h, 'w) spotipy \<Rightarrow> string \<Rightarrow> string \<Rightarrow> int \<Rightarrow>
     int \<Rightarrow> string option \<Rightarrow> 'w \<Rightarrow> pyval \<times> 'w" where
  "get_album_tracks sp token album_id limit offset market =
    try_except
     (bind_io (get_spotify_client sp token) (\<lambda>spotify.
      bind_io (call_method sp spotify ''album_tracks''
         [PStr album_id]
         [(''limit'', PInt limit),
          (''offset'', PInt offset),
          (''market'', optional PStr market)]) (\<lambda>results.
      return_io results)))
     (\<lambda>e. PDict [(''error'', PStr (''Failed to get album tracks: '' @ str e))])"

definition get_albums ::
    "('h, 'w) spotipy \<Rightarrow> string \<Rightarrow> string list \<Rightarrow>
     string option \<Rightarrow> 'w \<Rightarrow> pyval \<times> 'w" where
  "get_albums sp token albums market =
    try_except
     (bind_io (get_spotify_client sp token) (\<lambda>spotify.
      bind_io (call_method sp spotify ''albums''
         [str_list albums]
         [(''market'', optional PStr market)]) (\<lambda>results.
      return_io results)))
     (\<lambda>e. PDict [(''error'', PStr (''Failed to get albums: '' @ str e))])"

definition get_artist_info ::
    "('h, 'w) spotipy \<Rightarrow> string \<Rightarrow> string \<Rightarrow>
     'w \<Rightarrow> pyval \<times> 'w" where
  "get_artist_info sp token artist_id =
    try_except
     (bind_io (get_spotify_client sp token) (\<lambda>spotify.
      bind_io (call_method sp spotify ''artist''
         [PStr artist_id]
         []) (\<lambda>artist.
      return_io artist)))
     (\<lambda>e. PDict [(''error'', PStr (''Failed to get artist info: '' @ str e))])"

definition get_artist_albums ::
    "('h, 'w) spotipy \<Rightarrow> string \<Rightarrow> string \<Rightarrow>
     string option \<Rightarrow> string option \<Rightarrow> string option \<Rightarrow>
     int \<Rightarrow> int \<Rightarrow> 'w \<Rightarrow> pyval \<times> 'w" where
  "get_artist_albums sp token artist_id album_type include_groups country limit offset =
    try_except
     (bind_io (get_spotify_client sp token) (\<lambda>spotify.
      bind_io (call_method sp spotify ''artist_albums''
         [PStr artist_id]
         [(''album_type'', optional PStr album_type),
          (''include_groups'', optional PStr include_groups),
          (''country'', optional PStr country),
          (''limit'', PInt limit),
          (''offset'', PInt offset)]) (\<lambda>results.
      return_io results)))
     (\<lambda>e. PDict [(''error'', PStr (''Failed to get artist albums: '' @ str e))])"

definition get_artist_related_artists ::
    "('h, 'w) spotipy \<Rightarrow> string \<Rightarrow> string \<Rightarrow>
     'w \<Rightarrow> pyval \<times> 'w" where
  "get_artist_related_artists sp token artist_id =
    try_except
     (bind_io (get_spotify_client sp token) (\<lambda>spotify.
      bind_io (call_method sp spotify ''artist_related_artists''
         [PStr artist_id]
         []) (\<lambda>results.
      return_io results)))
     (\<lambda>e. PDict [(''error'', PStr (''Failed to get related artists: '' @ str e))])"

definition get_artist_top_tracks ::
    "('h, 'w) spotipy \<Rightarrow> string \<Rightarrow> string \<Rightarrow>
     string \<Rightarrow> 'w \<Rightarrow> pyval \<times> 'w" where
  "get_artist_top_tracks sp token artist_id country =
    try_except
     (bind_io (get_spotify_client sp token) (\<lambda>spotify.
      bind_io (call_method sp spotify ''artist_top_tracks''
         [PStr artist_id]
         [(''country'', PStr country)]) (\<lambda>results.
      return_io results)))
     (\<lambda>e. PDict [(''error'', PStr (''Failed to get artist top tracks: '' @ str e))])"

definition get_artists ::
    "('h, 'w) spotipy \<Rightarrow> string \<Rightarrow> string list \<Rightarrow>
     'w \<Rightarrow> pyval \<times> 'w" where
  "get_artists sp token artists =
    try_except
     (bind_io (get_spotify_client sp token) (\<lambda>spotify.
      bind_io (call_method sp spotify ''artists''
         [str_list artists]
         []) (\<lambda>results.
      return_io results)))
     (\<lambda>e. PDict [(''error'', PStr (''Failed to get artists: '' @ str e))])"

definition get_audio_analysis ::
    "('h, 'w) spotipy \<Rightarrow> string \<Rightarrow> string \<Rightarrow>
     'w \<Rightarrow> pyval \<times> 'w" where
  "get_audio_analysis sp token track_id =
    try_except
     (bind_io (get_spotify_client sp token) (\<lambda>spotify.
      bind_io (call_method sp spotify ''audio_analysis''
         [PStr track_id]
         []) (\<lambda>analysis.
      return_io analysis)))
     (\<lambda>e. PDict [(''error'', PStr (''Failed to get audio analysis: '' @ str e))])"

definition get_audio_features ::
    "('h, 'w) spotipy \<Rightarrow> string \<Rightarrow> string list \<Rightarrow>
     'w \<Rightarrow> pyval \<times> 'w" where
  "get_audio_features sp token tracks =
    try_except
     (bind_io (get_spotify_client sp token) (\<lambda>spotify.
      bind_io (call_method sp spotify ''audio_features''
         [str_list tracks]
         []) (\<lambda>features.
      return_io (if truthy features then features else PDict [(''audio_features'', PNone)]))))
     (\<lambda>e. PDict [(''error'', PStr (''Failed to get audio features: '' @ str e))])"

definition get_available_markets ::
    "('h, 'w) spotipy \<Rightarrow> string \<Rightarrow> 'w \<Rightarrow> pyval \<times> 'w" where
  "get_available_markets sp token =
    try_except
     (bind_io (get_spotify_client sp token) (\<lambda>spotify.
      bind_io (call_method sp spotify ''available_markets''
         []
         []) (\<lambda>markets.
      return_io markets)))
     (\<lambda>e. PDict [(''error'', PStr (''Failed to get available markets: '' @ str e))])"

definition get_categories ::
    "('h, 'w) spotipy \<Rightarrow> string \<Rightarrow> string option \<Rightarrow>
     string option \<Rightarrow> int \<Rightarrow> int \<Rightarrow>
     'w \<Rightarrow> pyval \<times> 'w" where
  "get_categories sp token country locale limit offset =
    try_except
     (bind_io (get_spotify_client sp token) (\<lambda>spotify.
      bind_io (call_method sp spotify ''categories''
         []
         [(''country'', optional PStr country),
          (''locale'', optional PStr locale),
          (''limit'', PInt limit),
          (''offset'', PInt offset)]) (\<lambda>results.
      return_io results)))
     (\<lambda>e. PDict [(''error'', PStr (''Failed to get categories: '' @ str e))])"

definition get_category ::
    "('h, 'w) spotipy \<Rightarrow> string \<Rightarrow> string \<Rightarrow>
     string option \<Rightarrow> string option \<Rightarrow> 'w \<Rightarrow> pyval \<times> 'w" where
  "get_category sp token category_id country locale =
    try_except
     (bind_io (get_spotify_client sp token) (\<lambda>spotify.
      bind_io (call_method sp spotify ''category''
         [PStr category_id]
         [(''country'', optional PStr country), (''locale'', optional PStr locale)]) (\<lambda>category.
      return_io category)))
     (\<lambda>e. PDict [(''error'', PStr (''Failed to get category: '' @ str e))])"

definition get_category_playlists ::
    "('h, 'w) spotipy \<Rightarrow> string \<Rightarrow> string \<Rightarrow>
     string option \<Rightarrow> int \<Rightarrow> int \<Rightarrow>
     'w \<Rightarrow> pyval \<times> 'w" where
  "get_category_playlists sp token category_id country limit offset =
    try_except
     (bind_io (get_spotify_client sp token) (\<lambda>spotify.
      bind_io (call_method sp spotify ''category_playlists''
         [PStr category_id]
         [(''country'', optional PStr country),
          (''limit'', PInt limit),
          (''offset'', PInt offset)]) (\<lambda>results.
      return_io results)))
     (\<lambda>e. PDict [(''error'', PStr (''Failed to get category playlists: '' @ str e))])"

definition get_episode ::
    "('h, 'w) spotipy \<Rightarrow> string \<Rightarrow> string \<Rightarrow>
     string option \<Rightarrow> 'w \<Rightarrow> pyval \<times> 'w" where
  "get_episode sp token episode_id market =
    try_except
     (bind_io (get_spotify_client sp token) (\<lambda>spotify.
      bind_io (call_method sp spotify ''episode''
         [PStr episode_id]
         [(''market'', optional PStr market)]) (\<lambda>episode.
      return_io episode)))
     (\<lambda>e. PDict [(''error'', PStr (''Failed to get episode: '' @ str e))])"

definition get_episodes ::
    "('h, 'w) spotipy \<Rightarrow> string \<Rightarrow> string list \<Rightarrow>
     string option \<Rightarrow> 'w \<Rightarrow> pyval \<times> 'w" where
  "get_episodes sp token ids market =
    try_except
     (bind_io (get_spotify_client sp token) (\<lambda>spotify.
      bind_io (call_method sp spotify ''episodes''
         [str_list ids]
         [(''market'', optional PStr market)]) (\<lambda>results.
      return_io results)))
     (\<lambda>e. PDict [(''error'', PStr (''Failed to get episodes: '' @ str e))])"

definition get_featured_playlists ::
    "('h, 'w) spotipy \<Rightarrow> string \<Rightarrow> string option \<Rightarrow>
     string option \<Rightarrow> string option \<Rightarrow> int \<Rightarrow> int \<Rightarrow>
     'w \<Rightarrow> pyval \<times> 'w" where
  "get_featured_playlists sp token locale country timestamp limit offset =
    try_except
     (bind_io (get_spotify_client sp token) (\<lambda>spotify.
      bind_io (call_method sp spotify ''featured_playlists''
         []
         [(''locale'', optional PStr locale),
          (''country'', optional PStr country),
          (''timestamp'', optional PStr timestamp),
          (''limit'', PInt limit),
          (''offset'', PInt offset)]) (\<lambda>results.
      return_io results)))
     (\<lambda>e. PDict [(''error'', PStr (''Failed to get featured playlists: '' @ str e))])"

definition get_audiobook ::
    "('h, 'w) spotipy \<Rightarrow> string \<Rightarrow> string \<Rightarrow>
     string option \<Rightarrow> 'w \<Rightarrow> pyval \<times> 'w" where
  "get_audiobook sp token id_p market =
    try_except
     (bind_io (get_spotify_client sp token) (\<lambda>spotify.
      bind_io (call_method sp spotify ''get_audiobook''
         [PStr id_p]
         [(''market'', optional PStr market)]) (\<lambda>audiobook.
      return_io audiobook)))
     (\<lambda>e. PDict [(''error'', PStr (''Failed to get audiobook: '' @ str e))])"

definition get_audiobook_chapters ::
    "('h, 'w) spotipy \<Rightarrow> string \<Rightarrow> string \<Rightarrow>
     string option \<Rightarrow> int \<Rightarrow> int \<Rightarrow>
     'w \<Rightarrow> pyval \<times> 'w" where
  "get_audiobook_chapters sp token id_p market limit offset =
    try_except
     (bind_io (get_spotify_client sp token) (\<lambda>spotify.
      bind_io (call_method sp spotify ''get_audiobook_chapters''
         [PStr id_p]
         [(''market'', optional PStr market),
          (''limit'', PInt limit),
          (''offset'', PInt offset)]) (\<lambda>results.
      return_io results)))
     (\<lambda>e. PDict [(''error'', PStr (''Failed to get audiobook chapters: '' @ str e))])"

definition get_audiobooks ::
    "('h, 'w) spotipy \<Rightarrow> string \<Rightarrow> string list \<Rightarrow>
     string option \<Rightarrow> 'w \<Rightarrow> pyval \<times> 'w" where
  "get_audiobooks sp token ids market =
    try_except
     (bind_io (get_spotify_client sp token) (\<lambda>spotify.
      bind_io (call_method sp spotify ''get_audiobooks''
         [str_list ids]
         [(''market'', optional PStr market)]) (\<lambda>results.
      return_io results)))
     (\<lambda>e. PDict [(''error'', PStr (''Failed to get audiobooks: '' @ str e))])"

definition get_new_releases ::
    "('h, 'w) spotipy \<Rightarrow> string \<Rightarrow> string option \<Rightarrow>
     int \<Rightarrow> int \<Rightarrow> 'w \<Rightarrow> pyval \<times> 'w" where
  "get_new_releases sp token country limit offset =
    try_except
     (bind_io (get_spotify_client sp token) (\<lambda>spotify.
      bind_io (call_method sp spotify ''new_releases''
         []
         [(''country'', optional PStr country),
          (''limit'', PInt limit),
          (''offset'', PInt offset)]) (\<lambda>results.
      return_io results)))
     (\<lambda>e. PDict [(''error'', PStr (''Failed to get new releases: '' @ str e))])"

definition get_playlist_info ::
    "('h, 'w) spotipy \<Rightarrow> string \<Rightarrow> string \<Rightarrow>
     'w \<Rightarrow> pyval \<times> 'w" where
  "get_playlist_info sp token playlist_id =
    try_except
     (bind_io (get_spotify_client sp token) (\<lambda>spotify.
      bind_io (call_method sp spotify ''playlist''
         [PStr playlist_id]
         []) (\<lambda>playlist.
      return_io playlist)))
     (\<lambda>e. PDict [(''error'', PStr (''Failed to get playlist info: '' @ str e))])"

definition get_playlist_tracks ::
    "('h, 'w) spotipy \<Rightarrow> string \<Rightarrow> string \<Rightarrow>
     string option \<Rightarrow> int \<Rightarrow> int \<Rightarrow> string option \<Rightarrow>
     string option \<Rightarrow> 'w \<Rightarrow> pyval \<times> 'w" where
  "get_playlist_tracks sp token playlist_id fields_p limit offset market additional_types =
    try_except
     (bind_io (get_spotify_client sp token) (\<lambda>spotify.
      bind_io (call_method sp spotify ''playlist_tracks''
         [PStr playlist_id]
         [(''fields'', optional PStr fields_p),
          (''limit'', PInt limit),
          (''offset'', PInt offset),
          (''market'', optional PStr market),
          (''additional_types'', optional PStr additional_types)]) (\<lambda>results.
      return_io results)))
     (\<lambda>e. PDict [(''error'', PStr (''Failed to get playlist tracks: '' @ str e))])"

definition playlist_cover_image ::
    "('h, 'w) spotipy \<Rightarrow> string \<Rightarrow> string \<Rightarrow>
     'w \<Rightarrow> pyval \<times> 'w" where
  "playlist_cover_image sp token playlist_id =
    try_except
     (bind_io (get_spotify_client sp token) (\<lambda>spotify.
      bind_io (call_method sp spotify ''playlist_cover_image''
         [PStr playlist_id]
         []) (\<lambda>result.
      return_io (PDict [(''images'', result)]))))
     (\<lambda>e. PDict [(''error'', PStr (''Failed to get playlist cover image: '' @ str e))])"

definition playlist_is_following ::
    "('h, 'w) spotipy \<Rightarrow> string \<Rightarrow> string \<Rightarrow>
     string list \<Rightarrow> 'w \<Rightarrow> pyval \<times> 'w" where
  "playlist_is_following sp token playlist_id user_ids =
    try_except
     (bind_io (get_spotify_client sp token) (\<lambda>spotify.
      bind_io (call_method sp spotify ''playlist_is_following''
         [PStr playlist_id, str_list user_ids]
         []) (\<lambda>result.
      return_io (PDict [(''following'', result)]))))
     (\<lambda>e. PDict [(''error'', PStr (''Failed to check playlist following status: '' @ str e))])"

definition get_available_genres ::
    "('h, 'w) spotipy \<Rightarrow> string \<Rightarrow> 'w \<Rightarrow> pyval \<times> 'w" where
  "get_available_genres sp token =
    try_except
     (bind_io (get_spotify_client sp token) (\<lambda>spotify.
      bind_io (call_method sp spotify ''recommendation_genre_seeds''
         []
         []) (\<lambda>genres.
      return_io genres)))
     (\<lambda>e. PDict [(''error'', PStr (''Failed to get available genres: '' @ str e))])"

definition get_recommendations ::
    "('h, 'w) spotipy \<Rightarrow> string \<Rightarrow> string list option \<Rightarrow>
     string list option \<Rightarrow> string list option \<Rightarrow> int \<Rightarrow>
     string option \<Rightarrow> float64 option \<Rightarrow> float64 option \<Rightarrow>
     float64 option \<Rightarrow> float64 option \<Rightarrow> float64 option \<Rightarrow>
     float64 option \<Rightarrow> int option \<Rightarrow> int option \<Rightarrow>
     int option \<Rightarrow> float64 option \<Rightarrow> float64 option \<Rightarrow>
     float64 option \<Rightarrow> float64 option \<Rightarrow> float64 option \<Rightarrow>
     float64 option \<Rightarrow> int option \<Rightarrow> int option \<Rightarrow>
     int option \<Rightarrow> float64 option \<Rightarrow> float64 option \<Rightarrow>
     float64 option \<Rightarrow> float64 option \<Rightarrow> float64 option \<Rightarrow>
     float64 option \<Rightarrow> int option \<Rightarrow> int option \<Rightarrow>
     int option \<Rightarrow> int option \<Rightarrow> int option \<Rightarrow>
     int option \<Rightarrow> float64 option \<Rightarrow> float64 option \<Rightarrow>
     float64 option \<Rightarrow> float64 option \<Rightarrow> float64 option \<Rightarrow>
     float64 option \<Rightarrow> int option \<Rightarrow> int option \<Rightarrow>
     int option \<Rightarrow> float64 option \<Rightarrow> float64 option \<Rightarrow>
     float64 option \<Rightarrow> 'w \<Rightarrow> pyval \<times> 'w" where
  "get_recommendations sp token seed_artists seed_genres seed_tracks limit market
      min_acousticness max_acousticness target_acousticness min_danceability max_danceability
      target_danceability min_duration_ms max_duration_ms target_duration_ms min_energy
      max_energy target_energy min_instrumentalness max_instrumentalness target_instrumentalness
      min_key max_key target_key min_liveness max_liveness target_liveness min_loudness
      max_loudness target_loudness min_mode max_mode target_mode min_popularity max_popularity
      target_popularity min_speechiness max_speechiness target_speechiness min_tempo max_tempo
      target_tempo min_time_signature max_time_signature target_time_signature min_valence
      max_valence target_valence =
    try_except
     (bind_io (get_spotify_client sp token) (\<lambda>spotify.
      bind_io (call_method sp spotify ''recommendations''
         []
         [(''seed_artists'', optional str_list seed_artists),
          (''seed_genres'', optional str_list seed_genres),
          (''seed_tracks'', optional str_list seed_tracks),
          (''limit'', PInt limit),
          (''market'', optional PStr market),
          (''min_acousticness'', optional PFloat min_acousticness),
          (''max_acousticness'', optional PFloat max_acousticness),
          (''target_acousticness'', optional PFloat target_acousticness),
          (''min_danceability'', optional PFloat min_danceability),
          (''max_danceability'', optional PFloat max_danceability),
          (''target_danceability'', optional PFloat target_danceability),
          (''min_duration_ms'', optional PInt min_duration_ms),
          (''max_duration_ms'', optional PInt max_duration_ms),
          (''target_duration_ms'', optional PInt target_duration_ms),
          (''min_energy'', optional PFloat min_energy),
          (''max_energy'', optional PFloat max_energy),
          (''target_energy'', optional PFloat target_energy),
          (''min_instrumentalness'', optional PFloat min_instrumentalness),
          (''max_instrumentalness'', optional PFloat max_instrumentalness),
          (''target_instrumentalness'', optional PFloat target_instrumentalness),
          (''min_key'', optional PInt min_key),
          (''max_key'', optional PInt max_key),
          (''target_key'', optional PInt target_key),
          (''min_liveness'', optional PFloat min_liveness),
          (''max_liveness'', optional PFloat max_liveness),
          (''target_liveness'', optional PFloat target_liveness),
          (''min_loudness'', optional PFloat min_loudness),
          (''max_loudness'', optional PFloat max_loudness),
          (''target_loudness'', optional PFloat target_loudness),
          (''min_mode'', optional PInt min_mode),
          (''max_mode'', optional PInt max_mode),
          (''target_mode'', optional PInt target_mode),
          (''min_popularity'', optional PInt min_popularity),
          (''max_popularity'', optional PInt max_popularity),
          (''target_popularity'', optional PInt target_popularity),
          (''min_speechiness'', optional PFloat min_speechiness),
          (''max_speechiness'', optional PFloat max_speechiness),
          (''target_speechiness'', optional PFloat target_speechiness),
          (''min_tempo'', optional PFloat min_tempo),
          (''max_tempo'', optional PFloat max_tempo),
          (''target_tempo'', optional PFloat target_tempo),
          (''min_time_signature'', optional PInt min_time_signature),
          (''max_time_signature'', optional PInt max_time_signature),
          (''target_time_signature'', optional PInt target_time_signature),
          (''min_valence'', optional PFloat min_valence),
          (''max_valence'', optional PFloat max_valence),
          (''target_valence'', optional PFloat target_valence)]) (\<lambda>results.
      return_io results)))
     (\<lambda>e. PDict [(''error'', PStr (''Failed to get recommendations: '' @ str e))])"

definition search_tracks ::
    "('h, 'w) spotipy \<Rightarrow> string \<Rightarrow> string \<Rightarrow> int \<Rightarrow>
     int \<Rightarrow> 'w \<Rightarrow> pyval \<times> 'w" where
  "search_tracks sp token query limit offset =
    try_except
     (bind_io (get_spotify_client sp token) (\<lambda>spotify.
      bind_io (call_method sp spotify ''search''
         []
         [(''q'', PStr query),
          (''type'', PStr ''track''),
          (''limit'', PInt limit),
          (''offset'', PInt offset)]) (\<lambda>results.
      return_io results)))
     (\<lambda>e. PDict [(''error'', PStr (''Track search failed: '' @ str e))])"

definition search_artists ::
    "('h, 'w) spotipy \<Rightarrow> string \<Rightarrow> string \<Rightarrow> int \<Rightarrow>
     int \<Rightarrow> 'w \<Rightarrow> pyval \<times> 'w" where
  "search_artists sp token query limit offset =
    try_except
     (bind_io (get_spotify_client sp token) (\<lambda>spotify.
      bind_io (call_method sp spotify ''search''
         []
         [(''q'', PStr query),
          (''type'', PStr ''artist''),
          (''limit'', PInt limit),
          (''offset'', PInt offset)]) (\<lambda>results.
      return_io results)))
     (\<lambda>e. PDict [(''error'', PStr (''Artist search failed: '' @ str e))])"

definition search_albums ::
    "('h, 'w) spotipy \<Rightarrow> string \<Rightarrow> string \<Rightarrow> int \<Rightarrow>
     int \<Rightarrow> 'w \<Rightarrow> pyval \<times> 'w" where
  "search_albums sp token query limit offset =
    try_except
     (bind_io (get_spotify_client sp token) (\<lambda>spotify.
      bind_io (call_method sp spotify ''search''
         []
         [(''q'', PStr query),
          (''type'', PStr ''album''),
          (''limit'', PInt limit),
          (''offset'', PInt offset)]) (\<lambda>results.
      return_io results)))
     (\<lambda>e. PDict [(''error'', PStr (''Album search failed: '' @ str e))])"

definition search_playlists ::
    "('h, 'w) spotipy \<Rightarrow> string \<Rightarrow> string \<Rightarrow> int \<Rightarrow>
     int \<Rightarrow> 'w \<Rightarrow> pyval \<times> 'w" where
  "search_playlists sp token query limit offset =
    try_except
     (bind_io (get_spotify_client sp token) (\<lambda>spotify.
      bind_io (call_method sp spotify ''search''
         []
         [(''q'', PStr query),
          (''type'', PStr ''playlist''),
          (''limit'', PInt limit),
          (''offset'', PInt offset)]) (\<lambda>results.
      return_io results)))
     (\<lambda>e. PDict [(''error'', PStr (''Playlist search failed: '' @ str e))])"

definition get_show ::
    "('h, 'w) spotipy \<Rightarrow> string \<Rightarrow> string \<Rightarrow>
     string option \<Rightarrow> 'w \<Rightarrow> pyval \<times> 'w" where
  "get_show sp token show_id market =
    try_except
     (bind_io (get_spotify_client sp token) (\<lambda>spotify.
      bind_io (call_method sp spotify ''show''
         [PStr show_id]
         [(''market'', optional PStr market)]) (\<lambda>show.
      return_io show)))
     (\<lambda>e. PDict [(''error'', PStr (''Failed to get show: '' @ str e))])"

definition get_show_episodes ::
    "('h, 'w) spotipy \<Rightarrow> string \<Rightarrow> string \<Rightarrow> int \<Rightarrow>
     int \<Rightarrow> string option \<Rightarrow> 'w \<Rightarrow> pyval \<times> 'w" where
  "get_show_episodes sp token show_id limit offset market =
    try_except
     (bind_io (get_spotify_client sp token) (\<lambda>spotify.
      bind_io (call_method sp spotify ''show_episodes''
         [PStr show_id]
         [(''limit'', PInt limit),
          (''offset'', PInt offset),
          (''market'', optional PStr market)]) (\<lambda>results.
      return_io results)))
     (\<lambda>e. PDict [(''error'', PStr (''Failed to get show episodes: '' @ str e))])"

definition get_shows ::
    "('h, 'w) spotipy \<Rightarrow> string \<Rightarrow> string list \<Rightarrow>
     string option \<Rightarrow> 'w \<Rightarrow> pyval \<times> 'w" where
  "get_shows sp token ids market =
    try_except
     (bind_io (get_spotify_client sp token) (\<lambda>spotify.
      bind_io (call_method sp spotify ''shows''
         [str_list ids]
         [(''market'', optional PStr market)]) (\<lambda>results.
      return_io results)))
     (\<lambda>e. PDict [(''error'', PStr (''Failed to get shows: '' @ str e))])"

definition get_track_info ::
    "('h, 'w) spotipy \<Rightarrow> string \<Rightarrow> string \<Rightarrow>
     'w \<Rightarrow> pyval \<times> 'w" where
  "get_track_info sp token track_id =
    try_except
     (bind_io (get_spotify_client sp token) (\<lambda>spotify.
      bind_io (call_method sp spotify ''track''
         [PStr track_id]
         []) (\<lambda>track.
      return_io track)))
     (\<lambda>e. PDict [(''error'', PStr (''Failed to get track info: '' @ str e))])"

definition get_tracks ::
    "('h, 'w) spotipy \<Rightarrow> string \<Rightarrow> string list \<Rightarrow>
     string option \<Rightarrow> 'w \<Rightarrow> pyval \<times> 'w" where
  "get_tracks sp token ids market =
    try_except
     (bind_io (get_spotify_client sp token) (\<lambda>spotify.
      bind_io (call_method sp spotify ''tracks''
         [str_list ids]
         [(''market'', optional PStr market)]) (\<lambda>results.
      return_io results)))
     (\<lambda>e. PDict [(''error'', PStr (''Failed to get tracks: '' @ str e))])"

definition get_user ::
    "('h, 'w) spotipy \<Rightarrow> string \<Rightarrow> string \<Rightarrow>
     'w \<Rightarrow> pyval \<times> 'w" where
  "get_user sp token user_id =
    try_except
     (bind_io (get_spotify_client sp token) (\<lambda>spotify.
      bind_io (call_method sp spotify ''user''
         [PStr user_id]
         []) (\<lambda>user.
      return_io user)))
     (\<lambda>e. PDict [(''error'', PStr (''Failed to get user: '' @ str e))])"

definition get_user_playlists ::
    "('h, 'w) spotipy \<Rightarrow> string \<Rightarrow> string \<Rightarrow> int \<Rightarrow>
     int \<Rightarrow> 'w \<Rightarrow> pyval \<times> 'w" where
  "get_user_playlists sp token user_id limit offset =
    try_except
     (bind_io (get_spotify_client sp token) (\<lambda>spotify.
      bind_io (call_method sp spotify ''user_playlists''
         [PStr user_id]
         [(''limit'', PInt limit), (''offset'', PInt offset)]) (\<lambda>results.
      return_io results)))
     (\<lambda>e. PDict [(''error'', PStr (''Failed to get user playlists: '' @ str e))])"

definition get_current_playback ::
    "('h, 'w) spotipy \<Rightarrow> string \<Rightarrow> string option \<Rightarrow>
     string option \<Rightarrow> 'w \<Rightarrow> pyval \<times> 'w" where
  "get_current_playback sp token market additional_types =
    try_except
     (bind_io (get_spotify_client sp token) (\<lambda>spotify.
      bind_io (call_method sp spotify ''current_playback''
         []
         [(''market'', optional PStr market),
          (''additional_types'', optional PStr additional_types)]) (\<lambda>result.
      return_io (if truthy result then result else PDict [(''playback'', PNone)]))))
     (\<lambda>e. PDict [(''error'', PStr (''Failed to get current playback: '' @ str e))])"

definition get_current_user ::
    "('h, 'w) spotipy \<Rightarrow> string \<Rightarrow> 'w \<Rightarrow> pyval \<times> 'w" where
  "get_current_user sp token =
    try_except
     (bind_io (get_spotify_client sp token) (\<lambda>spotify.
      bind_io (call_method sp spotify ''current_user''
         []
         []) (\<lambda>user.
      return_io user)))
     (\<lambda>e. PDict [(''error'', PStr (''Failed to get current user: '' @ str e))])"

definition get_current_user_followed_artists ::
    "('h, 'w) spotipy \<Rightarrow> string \<Rightarrow> int \<Rightarrow>
     string option \<Rightarrow> 'w \<Rightarrow> pyval \<times> 'w" where
  "get_current_user_followed_artists sp token limit after =
    try_except
     (bind_io (get_spotify_client sp token) (\<lambda>spotify.
      bind_io (call_method sp spotify ''current_user_followed_artists''
         []
         [(''limit'', PInt limit), (''after'', optional PStr after)]) (\<lambda>results.
      return_io results)))
     (\<lambda>e. PDict [(''error'', PStr (''Failed to get followed artists: '' @ str e))])"

definition check_current_user_following_artists ::
    "('h, 'w) spotipy \<Rightarrow> string \<Rightarrow> string list \<Rightarrow>
     'w \<Rightarrow> pyval \<times> 'w" where
  "check_current_user_following_artists sp token ids =
    try_except
     (bind_io (get_spotify_client sp token) (\<lambda>spotify.
      bind_io (call_method sp spotify ''current_user_following_artists''
         []
         [(''ids'', str_list ids)]) (\<lambda>result.
      return_io (PDict [(''following'', result)]))))
     (\<lambda>e. PDict [(''error'', PStr (''Failed to check if following artists: '' @ str e))])"

definition check_current_user_following_users ::
    "('h, 'w) spotipy \<Rightarrow> string \<Rightarrow> string list \<Rightarrow>
     'w \<Rightarrow> pyval \<times> 'w" where
  "check_current_user_following_users sp token ids =
    try_except
     (bind_io (get_spotify_client sp token) (\<lambda>spotify.
      bind_io (call_method sp spotify ''current_user_following_users''
         []
         [(''ids'', str_list ids)]) (\<lambda>result.
      return_io (PDict [(''following'', result)]))))
     (\<lambda>e. PDict [(''error'', PStr (''Failed to check if following users: '' @ str e))])"

definition get_current_user_playing_track ::
    "('h, 'w) spotipy \<Rightarrow> string \<Rightarrow> 'w \<Rightarrow> pyval \<times> 'w" where
  "get_current_user_playing_track sp token =
    try_except
     (bind_io (get_spotify_client sp token) (\<lambda>spotify.
      bind_io (call_method sp spotify ''current_user_playing_track''
         []
         []) (\<lambda>result.
      return_io (if truthy result then result else PDict [(''track'', PNone)]))))
     (\<lambda>e. PDict [(''error'', PStr (''Failed to get currently playing track: '' @ str e))])"

definition get_current_user_playlists ::
    "('h, 'w) spotipy \<Rightarrow> string \<Rightarrow> int \<Rightarrow> int \<Rightarrow>
     'w \<Rightarrow> pyval \<times> 'w" where
  "get_current_user_playlists sp token limit offset =
    try_except
     (bind_io (get_spotify_client sp token) (\<lambda>spotify.
      bind_io (call_method sp spotify ''current_user_playlists''
         []
         [(''limit'', PInt limit), (''offset'', PInt offset)]) (\<lambda>results.
      return_io results)))
     (\<lambda>e. PDict [(''error'', PStr (''Failed to get current user playlists: '' @ str e))])"

definition get_current_user_recently_played ::
    "('h, 'w) spotipy \<Rightarrow> string \<Rightarrow> int \<Rightarrow>
     int option \<Rightarrow> int option \<Rightarrow> 'w \<Rightarrow> pyval \<times> 'w" where
  "get_current_user_recently_played sp token limit after before =
    try_except
     (bind_io (get_spotify_client sp token) (\<lambda>spotify.
      bind_io (call_method sp spotify ''current_user_recently_played''
         []
         [(''limit'', PInt limit),
          (''after'', optional PInt after),
          (''before'', optional PInt before)]) (\<lambda>results.
      return_io results)))
     (\<lambda>e. PDict [(''error'', PStr (''Failed to get recently played tracks: '' @ str e))])"

definition get_current_user_saved_albums ::
    "('h, 'w) spotipy \<Rightarrow> string \<Rightarrow> int \<Rightarrow> int \<Rightarrow>
     string option \<Rightarrow> 'w \<Rightarrow> pyval \<times> 'w" where
  "get_current_user_saved_albums sp token limit offset market =
    try_except
     (bind_io (get_spotify_client sp token) (\<lambda>spotify.
      bind_io (call_method sp spotify ''current_user_saved_albums''
         []
         [(''limit'', PInt limit),
          (''offset'', PInt offset),
          (''market'', optional PStr market)]) (\<lambda>results.
      return_io results)))
     (\<lambda>e. PDict [(''error'', PStr (''Failed to get saved albums: '' @ str e))])"

definition check_current_user_saved_albums ::
    "('h, 'w) spotipy \<Rightarrow> string \<Rightarrow> string list \<Rightarrow>
     'w \<Rightarrow> pyval \<times> 'w" where
  "check_current_user_saved_albums sp token albums =
    try_except
     (bind_io (get_spotify_client sp token) (\<lambda>spotify.
      bind_io (call_method sp spotify ''current_user_saved_albums_contains''
         []
         [(''albums'', str_list albums)]) (\<lambda>result.
      return_io (PDict [(''saved'', result)]))))
     (\<lambda>e. PDict [(''error'', PStr (''Failed to check saved albums: '' @ str e))])"

definition get_current_user_saved_episodes ::
    "('h, 'w) spotipy \<Rightarrow> string \<Rightarrow> int \<Rightarrow> int \<Rightarrow>
     string option \<Rightarrow> 'w \<Rightarrow> pyval \<times> 'w" where
  "get_current_user_saved_episodes sp token limit offset market =
    try_except
     (bind_io (get_spotify_client sp token) (\<lambda>spotify.
      bind_io (call_method sp spotify ''current_user_saved_episodes''
         []
         [(''limit'', PInt limit),
          (''offset'', PInt offset),
          (''market'', optional PStr market)]) (\<lambda>results.
      return_io results)))
     (\<lambda>e. PDict [(''error'', PStr (''Failed to get saved episodes: '' @ str e))])"

definition check_current_user_saved_episodes ::
    "('h, 'w) spotipy \<Rightarrow> string \<Rightarrow> string list \<Rightarrow>
     'w \<Rightarrow> pyval \<times> 'w" where
  "check_current_user_saved_episodes sp token episodes =
    try_except
     (bind_io (get_spotify_client sp token) (\<lambda>spotify.
      bind_io (call_method sp spotify ''current_user_saved_episodes_contains''
         []
         [(''episodes'', str_list episodes)]) (\<lambda>result.
      return_io (PDict [(''saved'', result)]))))
     (\<lambda>e. PDict [(''error'', PStr (''Failed to check saved episodes: '' @ str e))])"

definition get_current_user_saved_shows ::
    "('h, 'w) spotipy \<Rightarrow> string \<Rightarrow> int \<Rightarrow> int \<Rightarrow>
     string option \<Rightarrow> 'w \<Rightarrow> pyval \<times> 'w" where
  "get_current_user_saved_shows sp token limit offset market =
    try_except
     (bind_io (get_spotify_client sp token) (\<lambda>spotify.
      bind_io (call_method sp spotify ''current_user_saved_shows''
         []
         [(''limit'', PInt limit),
          (''offset'', PInt offset),
          (''market'', optional PStr market)]) (\<lambda>results.
      return_io results)))
     (\<lambda>e. PDict [(''error'', PStr (''Failed to get saved shows: '' @ str e))])"

definition check_current_user_saved_shows ::
    "('h, 'w) spotipy \<Rightarrow> string \<Rightarrow> string list \<Rightarrow>
     'w \<Rightarrow> pyval \<times> 'w" where
  "check_current_user_saved_shows sp token shows =
    try_except
     (bind_io (get_spotify_client sp token) (\<lambda>spotify.
      bind_io (call_method sp spotify ''current_user_saved_shows_contains''
         []
         [(''shows'', str_list shows)]) (\<lambda>result.
      return_io (PDict [(''saved'', result)]))))
     (\<lambda>e. PDict [(''error'', PStr (''Failed to check saved shows: '' @ str e))])"

definition get_current_user_saved_tracks ::
    "('h, 'w) spotipy \<Rightarrow> string \<Rightarrow> int \<Rightarrow> int \<Rightarrow>
     string option \<Rightarrow> 'w \<Rightarrow> pyval \<times> 'w" where
  "get_current_user_saved_tracks sp token limit offset market =
    try_except
     (bind_io (get_spotify_client sp token) (\<lambda>spotify.
      bind_io (call_method sp spotify ''current_user_saved_tracks''
         []
         [(''limit'', PInt limit),
          (''offset'', PInt offset),
          (''market'', optional PStr market)]) (\<lambda>results.
      return_io results)))
     (\<lambda>e. PDict [(''error'', PStr (''Failed to get saved tracks: '' @ str e))])"

definition check_current_user_saved_tracks ::
    "('h, 'w) spotipy \<Rightarrow> string \<Rightarrow> string list \<Rightarrow>
     'w \<Rightarrow> pyval \<times> 'w" where
  "check_current_user_saved_tracks sp token tracks =
    try_except
     (bind_io (get_spotify_client sp token) (\<lambda>spotify.
      bind_io (call_method sp spotify ''current_user_saved_tracks_contains''
         []
         [(''tracks'', str_list tracks)]) (\<lambda>result.
      return_io (PDict [(''saved'', result)]))))
     (\<lambda>e. PDict [(''error'', PStr (''Failed to check saved tracks: '' @ str e))])"

definition get_current_user_top_artists ::
    "('h, 'w) spotipy \<Rightarrow> string \<Rightarrow> int \<Rightarrow> int \<Rightarrow>
     string \<Rightarrow> 'w \<Rightarrow> pyval \<times> 'w" where
  "get_current_user_top_artists sp token limit offset time_range =
    try_except
     (bind_io (get_spotify_client sp token) (\<lambda>spotify.
      bind_io (call_method sp spotify ''current_user_top_artists''
         []
         [(''limit'', PInt limit),
          (''offset'', PInt offset),
          (''time_range'', PStr time_range)]) (\<lambda>results.
      return_io results)))
     (\<lambda>e. PDict [(''error'', PStr (''Failed to get top artists: '' @ str e))])"

definition get_current_user_top_tracks ::
    "('h, 'w) spotipy \<Rightarrow> string \<Rightarrow> int \<Rightarrow> int \<Rightarrow>
     string \<Rightarrow> 'w \<Rightarrow> pyval \<times> 'w" where
  "get_current_user_top_tracks sp token limit offset time_range =
    try_except
     (bind_io (get_spotify_client sp token) (\<lambda>spotify.
      bind_io (call_method sp spotify ''current_user_top_tracks''
         []
         [(''limit'', PInt limit),
          (''offset'', PInt offset),
          (''time_range'', PStr time_range)]) (\<lambda>results.
      return_io results)))
     (\<lambda>e. PDict [(''error'', PStr (''Failed to get top tracks: '' @ str e))])"

definition get_currently_playing ::
    "('h, 'w) spotipy \<Rightarrow> string \<Rightarrow> string option \<Rightarrow>
     string option \<Rightarrow> 'w \<Rightarrow> pyval \<times> 'w" where
  "get_currently_playing sp token market additional_types =
    try_except
     (bind_io (get_spotify_client sp token) (\<lambda>spotify.
      bind_io (call_method sp spotify ''currently_playing''
         []
         [(''market'', optional PStr market),
          (''additional_types'', optional PStr additional_types)]) (\<lambda>result.
      return_io (if truthy result then result else PDict [(''currently_playing'', PNone)]))))
     (\<lambda>e. PDict [(''error'', PStr (''Failed to get currently playing: '' @ str e))])"

definition get_devices ::
    "('h, 'w) spotipy \<Rightarrow> string \<Rightarrow> 'w \<Rightarrow> pyval \<times> 'w" where
  "get_devices sp token =
    try_except
     (bind_io (get_spotify_client sp token) (\<lambda>spotify.
      bind_io (call_method sp spotify ''devices''
         []
         []) (\<lambda>result.
      return_io result)))
     (\<lambda>e. PDict [(''error'', PStr (''Failed to get devices: '' @ str e))])"

definition get_playlist_items ::
    "('h, 'w) spotipy \<Rightarrow> string \<Rightarrow> string \<Rightarrow>
     string option \<Rightarrow> int \<Rightarrow> int \<Rightarrow> string option \<Rightarrow>
     string \<Rightarrow> 'w \<Rightarrow> pyval \<times> 'w" where
  "get_playlist_items sp token playlist_id fields_p limit offset market additional_types =
    try_except
     (bind_io (get_spotify_client sp token) (\<lambda>spotify.
      let additional_types_tuple =
        (if additional_types \<noteq> [] then PTuple (map PStr (split additional_types CHR '',''))
         else PTuple [PStr ''track'', PStr ''episode'']) in
      bind_io (call_method sp spotify ''playlist_items''
         [PStr playlist_id]
         [(''fields'', optional PStr fields_p),
          (''limit'', PInt limit),
          (''offset'', PInt offset),
          (''market'', optional PStr market),
          (''additional_types'', additional_types_tuple)]) (\<lambda>results.
      return_io results)))
     (\<lambda>e. PDict [(''error'', PStr (''Failed to get playlist items: '' @ str e))])"

definition get_queue ::
    "('h, 'w) spotipy \<Rightarrow> string \<Rightarrow> 'w \<Rightarrow> pyval \<times> 'w" where
  "get_queue sp token =
    try_except
     (bind_io (get_spotify_client sp token) (\<lambda>spotify.
      bind_io (call_method sp spotify ''queue''
         []
         []) (\<lambda>result.
      return_io result)))
     (\<lambda>e. PDict [(''error'', PStr (''Failed to get queue: '' @ str e))])"

definition search_general ::
    "('h, 'w) spotipy \<Rightarrow> string \<Rightarrow> string \<Rightarrow> int \<Rightarrow>
     int \<Rightarrow> string \<Rightarrow> string option \<Rightarrow>
     'w \<Rightarrow> pyval \<times> 'w" where
  "search_general sp token query limit offset type_p market =
    try_except
     (bind_io (get_spotify_client sp token) (\<lambda>spotify.
      bind_io (call_method sp spotify ''search''
         []
         [(''q'', PStr query),
          (''limit'', PInt limit),
          (''offset'', PInt offset),
          (''type'', PStr type_p),
          (''market'', optional PStr market)]) (\<lambda>results.
      return_io results)))
     (\<lambda>e. PDict [(''error'', PStr (''Search failed: '' @ str e))])"

definition search_markets ::
    "('h, 'w) spotipy \<Rightarrow> string \<Rightarrow> string \<Rightarrow> int \<Rightarrow>
     int \<Rightarrow> string \<Rightarrow> string list option \<Rightarrow>
     int option \<Rightarrow> 'w \<Rightarrow> pyval \<times> 'w" where
  "search_markets sp token query limit offset type_p markets total_p =
    try_except
     (bind_io (get_spotify_client sp token) (\<lambda>spotify.
      bind_io (call_method sp spotify ''search_markets''
         []
         [(''q'', PStr query),
          (''limit'', PInt limit),
          (''offset'', PInt offset),
          (''type'', PStr type_p),
          (''markets'', optional str_list markets),
          (''total'', optional PInt total_p)]) (\<lambda>results.
      return_io results)))
     (\<lambda>e. PDict [(''error'', PStr (''Multi-market search failed: '' @ str e))])"

definition get_user_playlist ::
    "('h, 'w) spotipy \<Rightarrow> string \<Rightarrow> string \<Rightarrow>
     string \<Rightarrow> string option \<Rightarrow> string option \<Rightarrow>
     'w \<Rightarrow> pyval \<times> 'w" where
  "get_user_playlist sp token user_id playlist_id fields_p market =
    try_except
     (bind_io (get_spotify_client sp token) (\<lambda>spotify.
      bind_io (call_method sp spotify ''user_playlist''
         [PStr user_id, PStr playlist_id]
         [(''fields'', optional PStr fields_p), (''market'', optional PStr market)]) (\<lambda>result.
      return_io result)))
     (\<lambda>e. PDict [(''error'', PStr (''Failed to get user playlist: '' @ str e))])"

section \<open>The registry\<close>

text \<open>
  Every function above carries the decorator \<^verbatim>\<open>@mcp.tool()\<close>: the hosting framework
  registers it under its name and calls it with the arguments of a request.  A request is
  therefore one of the tools together with a value for each of its parameters, in the
  order of the \<^verbatim>\<open>def\<close>; \<open>call_tool\<close> runs it.  Default values are filled in by the
  framework before the call and do not appear here.
\<close>

datatype (plugins only: size) tool_call =
    Get_album_info string string "string option"
  | Get_album_tracks string string int int "string option"
  | Get_albums string "string list" "string option"
  | Get_artist_info string string
  | Get_artist_albums string string "string option" "string option" "string option" int int
  | Get_artist_related_artists string string
  | Get_artist_top_tracks string string string
  | Get_artists string "string list"
  | Get_audio_analysis string string
  | Get_audio_features string "string list"
  | Get_available_markets string
  | Get_categories string "string option" "string option" int int
  | Get_category string string "string option" "string option"
  | Get_category_playlists string string "string option" int int
  | Get_episode string string "string option"
  | Get_episodes string "string list" "string option"
  | Get_featured_playlists string "string option" "string option" "string option" int int
  | Get_audiobook string string "string option"
  | Get_audiobook_chapters string string "string option" int int
  | Get_audiobooks string "string list" "string option"
  | Get_new_releases string "string option" int int
  | Get_playlist_info string string
  | Get_playlist_tracks string string "string option" int int "string option" "string option"
  | Playlist_cover_image string string
  | Playlist_is_following string string "string list"
  | Get_available_genres string
  | Get_recommendations string "string list option" "string list option" "string list option"
      int "string option" "float64 option" "float64 option" "float64 option" "float64 option"
      "float64 option" "float64 option" "int option" "int option" "int option" "float64 option"
      "float64 option" "float64 option" "float64 option" "float64 option" "float64 option"
      "int option" "int option" "int option" "float64 option" "float64 option" "float64 option"
      "float64 option" "float64 option" "float64 option" "int option" "int option" "int option"
      "int option" "int option" "int option" "float64 option" "float64 option" "float64 option"
      "float64 option" "float64 option" "float64 option" "int option" "int option" "int option"
      "float64 option" "float64 option" "float64 option"
  | Search_tracks string string int int
  | Search_artists string string int int
  | Search_albums string string int int
  | Search_playlists string string int int
  | Get_show string string "string option"
  | Get_show_episodes string string int int "string option"
  | Get_shows string "string list" "string option"
  | Get_track_info string string
  | Get_tracks string "string list" "string option"
  | Get_user string string
  | Get_user_playlists string string int int
  | Get_current_playback string "string option" "string option"
  | Get_current_user string
  | Get_current_user_followed_artists string int "string option"
  | Check_current_user_following_artists string "string list"
  | Check_current_user_following_users string "string list"
  | Get_current_user_playing_track string
  | Get_current_user_playlists string int int
  | Get_current_user_recently_played string int "int option" "int option"
  | Get_current_user_saved_albums string int int "string option"
  | Check_current_user_saved_albums string "string list"
  | Get_current_user_saved_episodes string int int "string option"
  | Check_current_user_saved_episodes string "string list"
  | Get_current_user_saved_shows string int int "string option"
  | Check_current_user_saved_shows string "string list"
  | Get_current_user_saved_tracks string int int "string option"
  | Check_current_user_saved_tracks string "string list"
  | Get_current_user_top_artists string int int string
  | Get_current_user_top_tracks string int int string
  | Get_currently_playing string "string option" "string option"
  | Get_devices string
  | Get_playlist_items string string "string option" int int "string option" string
  | Get_queue string
  | Search_general string string int int string "string option"
  | Search_markets string string int int string "string list option" "int option"
  | Get_user_playlist string string string "string option" "string option"

primrec call_tool :: "('h, 'w) spotipy \<Rightarrow> tool_call \<Rightarrow> 'w \<Rightarrow> pyval \<times> 'w" where
  "call_tool sp (Get_album_info token album_id market) =
     get_album_info sp token album_id market"
| "call_tool sp (Get_album_tracks token album_id limit offset market) =
     get_album_tracks sp token album_id limit offset market"
| "call_tool sp (Get_albums token albums market) = get_albums sp token albums market"
| "call_tool sp (Get_artist_info token artist_id) = get_artist_info sp token artist_id"
| "call_tool sp (Get_artist_albums token artist_id album_type include_groups country limit offset) =
     get_artist_albums sp token artist_id album_type include_groups country limit offset"
| "call_tool sp (Get_artist_related_artists token artist_id) =
     get_artist_related_artists sp token artist_id"
| "call_tool sp (Get_artist_top_tracks token artist_id country) =
     get_artist_top_tracks sp token artist_id country"
| "call_tool sp (Get_artists token artists) = get_artists sp token artists"
| "call_tool sp (Get_audio_analysis token track_id) = get_audio_analysis sp token track_id"
| "call_tool sp (Get_audio_features token tracks) = get_audio_features sp token tracks"
| "call_tool sp (Get_available_markets token) = get_available_markets sp token"
| "call_tool sp (Get_categories token country locale limit offset) =
     get_categories sp token country locale limit offset"
| "call_tool sp (Get_category token category_id country locale) =
     get_category sp token category_id country locale"
| "call_tool sp (Get_category_playlists token category_id country limit offset) =
     get_category_playlists sp token category_id country limit offset"
| "call_tool sp (Get_episode token episode_id market) = get_episode sp token episode_id market"
| "call_tool sp (Get_episodes token ids market) = get_episodes sp token ids market"
| "call_tool sp (Get_featured_playlists token locale country timestamp limit offset) =
     get_featured_playlists sp token locale country timestamp limit offset"
| "call_tool sp (Get_audiobook token id_p market) = get_audiobook sp token id_p market"
| "call_tool sp (Get_audiobook_chapters token id_p market limit offset) =
     get_audiobook_chapters sp token id_p market limit offset"
| "call_tool sp (Get_audiobooks token ids market) = get_audiobooks sp token ids market"
| "call_tool sp (Get_new_releases token country limit offset) =
     get_new_releases sp token country limit offset"
| "call_tool sp (Get_playlist_info token playlist_id) = get_playlist_info sp token playlist_id"
| "call_tool sp (Get_playlist_tracks token playlist_id fields_p limit offset market additional_types) =
     get_playlist_tracks sp token playlist_id fields_p limit offset market additional_types"
| "call_tool sp (Playlist_cover_image token playlist_id) =
     playlist_cover_image sp token playlist_id"
| "call_tool sp (Playlist_is_following token playlist_id user_ids) =
     playlist_is_following sp token playlist_id user_ids"
| "call_tool sp (Get_available_genres token) = get_available_genres sp token"
| "call_tool sp (Get_recommendations token seed_artists seed_genres seed_tracks limit market
       min_acousticness max_acousticness target_acousticness min_danceability max_danceability
       target_danceability min_duration_ms max_duration_ms target_duration_ms min_energy
       max_energy target_energy min_instrumentalness max_instrumentalness
       target_instrumentalness min_key max_key target_key min_liveness max_liveness
       target_liveness min_loudness max_loudness target_loudness min_mode max_mode target_mode
       min_popularity max_popularity target_popularity min_speechiness max_speechiness
       target_speechiness min_tempo max_tempo target_tempo min_time_signature max_time_signature
       target_time_signature min_valence max_valence target_valence) =
     get_recommendations sp token seed_artists seed_genres seed_tracks limit market
       min_acousticness max_acousticness target_acousticness min_danceability max_danceability
       target_danceability min_duration_ms max_duration_ms target_duration_ms min_energy
       max_energy target_energy min_instrumentalness max_instrumentalness
       target_instrumentalness min_key max_key target_key min_liveness max_liveness
       target_liveness min_loudness max_loudness target_loudness min_mode max_mode target_mode
       min_popularity max_popularity target_popularity min_speechiness max_speechiness
       target_speechiness min_tempo max_tempo target_tempo min_time_signature max_time_signature
       target_time_signature min_valence max_valence target_valence"
| "call_tool sp (Search_tracks token query limit offset) =
     search_tracks sp token query limit offset"
| "call_tool sp (Search_artists token query limit offset) =
     search_artists sp token query limit offset"
| "call_tool sp (Search_albums token query limit offset) =
     search_albums sp token query limit offset"
| "call_tool sp (Search_playlists token query limit offset) =
     search_playlists sp token query limit offset"
| "call_tool sp (Get_show token show_id market) = get_show sp token show_id market"
| "call_tool sp (Get_show_episodes token show_id limit offset market) =
     get_show_episodes sp token show_id limit offset market"
| "call_tool sp (Get_shows token ids market) = get_shows sp token ids market"
| "call_tool sp (Get_track_info token track_id) = get_track_info sp token track_id"
| "call_tool sp (Get_tracks token ids market) = get_tracks sp token ids market"
| "call_tool sp (Get_user token user_id) = get_user sp token user_id"
| "call_tool sp (Get_user_playlists token user_id limit offset) =
     get_user_playlists sp token user_id limit offset"
| "call_tool sp (Get_current_playback token market additional_types) =
     get_current_playback sp token market additional_types"
| "call_tool sp (Get_current_user token) = get_current_user sp token"
| "call_tool sp (Get_current_user_followed_artists token limit after) =
     get_current_user_followed_artists sp token limit after"
| "call_tool sp (Check_current_user_following_artists token ids) =
     check_current_user_following_artists sp token ids"
| "call_tool sp (Check_current_user_following_users token ids) =
     check_current_user_following_users sp token ids"
| "call_tool sp (Get_current_user_playing_track token) =
     get_current_user_playing_track sp token"
| "call_tool sp (Get_current_user_playlists token limit offset) =
     get_current_user_playlists sp token limit offset"
| "call_tool sp (Get_current_user_recently_played token limit after before) =
     get_current_user_recently_played sp token limit after before"
| "call_tool sp (Get_current_user_saved_albums token limit offset market) =
     get_current_user_saved_albums sp token limit offset market"
| "call_tool sp (Check_current_user_saved_albums token albums) =
     check_current_user_saved_albums sp token albums"
| "call_tool sp (Get_current_user_saved_episodes token limit offset market) =
     get_current_user_saved_episodes sp token limit offset market"
| "call_tool sp (Check_current_user_saved_episodes token episodes) =
     check_current_user_saved_episodes sp token episodes"
| "call_tool sp (Get_current_user_saved_shows token limit offset market) =
     get_current_user_saved_shows sp token limit offset market"
| "call_tool sp (Check_current_user_saved_shows token shows) =
     check_current_user_saved_shows sp token shows"
| "call_tool sp (Get_current_user_saved_tracks token limit offset market) =
     get_current_user_saved_tracks sp token limit offset market"
| "call_tool sp (Check_current_user_saved_tracks token tracks) =
     check_current_user_saved_tracks sp token tracks"
| "call_tool sp (Get_current_user_top_artists token limit offset time_range) =
     get_current_user_top_artists sp token limit offset time_range"
| "call_tool sp (Get_current_user_top_tracks token limit offset time_range) =
     get_current_user_top_tracks sp token limit offset time_range"
| "call_tool sp (Get_currently_playing token market additional_types) =
     get_currently_playing sp token market additional_types"
| "call_tool sp (Get_devices token) = get_devices sp token"
| "call_tool sp (Get_playlist_items token playlist_id fields_p limit offset market additional_types) =
     get_playlist_items sp token playlist_id fields_p limit offset market additional_types"
| "call_tool sp (Get_queue token) = get_queue sp token"
| "call_tool sp (Search_general token query limit offset type_p market) =
     search_general sp token query limit offset type_p market"
| "call_tool sp (Search_markets token query limit offset type_p markets total_p) =
     search_markets sp token query limit offset type_p markets total_p"
| "call_tool sp (Get_user_playlist token user_id playlist_id fields_p market) =
     get_user_playlist sp token user_id playlist_id fields_p market"

section \<open>The common shape of the tools\<close>

text \<open>
  What a tool does with the value the library returns: hand it on, replace a false value by
  a dict with one key and the value \<^verbatim>\<open>None\<close>, or put it under a key of a new dict.
\<close>

datatype treatment = Passthrough | Placeholder string | Rewrap string

fun finish :: "treatment \<Rightarrow> pyval \<Rightarrow> pyval" where
  "finish Passthrough r = r"
| "finish (Placeholder key) r = (if truthy r then r else PDict [(key, PNone)])"
| "finish (Rewrap key) r = PDict [(key, r)]"

definition error_result :: "string \<Rightarrow> exception \<Rightarrow> pyval" where
  "error_result pre e = PDict [(''error'', PStr (pre @ str e))]"

text \<open>
  The catalogue: for each request the name of the tool, the token the client is built
  from, the method called on the client with its positional and keyword arguments, the
  treatment of the returned value and the text in front of the description of a failure.
  \<open>params\<close> lists the parameters of the tool after the token, by name, with the values
  of the request.
\<close>

record tool_shape =
  name :: string
  auth :: string
  meth :: string
  args :: "pyval list"
  kwargs :: "(string \<times> pyval) list"
  wrap :: treatment
  failure_prefix :: string

primrec shape :: "tool_call \<Rightarrow> tool_shape" where
  "shape (Get_album_info token album_id market) =
     \<lparr>name = ''get_album_info'',
      auth = token,
      meth = ''album'',
      args = [PStr album_id],
      kwargs = [(''market'', optional PStr market)],
      wrap = Passthrough,
      failure_prefix = ''Failed to get album info: ''\<rparr>"
| "shape (Get_album_tracks token album_id limit offset market) =
     \<lparr>name = ''get_album_tracks'',
      auth = token,
      meth = ''album_tracks'',
      args = [PStr album_id],
      kwargs = [(''limit'', PInt limit),
                 (''offset'', PInt offset),
                 (''market'', optional PStr market)],
      wrap = Passthrough,
      failure_prefix = ''Failed to get album tracks: ''\<rparr>"
| "shape (Get_albums token albums market) =
     \<lparr>name = ''get_albums'',
      auth = token,
      meth = ''albums'',
      args = [str_list albums],
      kwargs = [(''market'', optional PStr market)],
      wrap = Passthrough,
      failure_prefix = ''Failed to get albums: ''\<rparr>"
| "shape (Get_artist_info token artist_id) =
     \<lparr>name = ''get_artist_info'',
      auth = token,
      meth = ''artist'',
      args = [PStr artist_id],
      kwargs = [],
      wrap = Passthrough,
      failure_prefix = ''Failed to get artist info: ''\<rparr>"
| "shape (Get_artist_albums token artist_id album_type include_groups country limit offset) =
     \<lparr>name = ''get_artist_albums'',
      auth = token,
      meth = ''artist_albums'',
      args = [PStr artist_id],
      kwargs = [(''album_type'', optional PStr album_type),
                 (''include_groups'', optional PStr include_groups),
                 (''country'', optional PStr country),
                 (''limit'', PInt limit),
                 (''offset'', PInt offset)],
      wrap = Passthrough,
      failure_prefix = ''Failed to get artist albums: ''\<rparr>"
| "shape (Get_artist_related_artists token artist_id) =
     \<lparr>name = ''get_artist_related_artists'',
      auth = token,
      meth = ''artist_related_artists'',
      args = [PStr artist_id],
      kwargs = [],
      wrap = Passthrough,
      failure_prefix = ''Failed to get related artists: ''\<rparr>"
| "shape (Get_artist_top_tracks token artist_id country) =
     \<lparr>name = ''get_artist_top_tracks'',
      auth = token,
      meth = ''artist_top_tracks'',
      args = [PStr artist_id],
      kwargs = [(''country'', PStr country)],
      wrap = Passthrough,
      failure_prefix = ''Failed to get artist top tracks: ''\<rparr>"
| "shape (Get_artists token artists) =
     \<lparr>name = ''get_artists'',
      auth = token,
      meth = ''artists'',
      args = [str_list artists],
      kwargs = [],
      wrap = Passthrough,
      failure_prefix = ''Failed to get artists: ''\<rparr>"
| "shape (Get_audio_analysis token track_id) =
     \<lparr>name = ''get_audio_analysis'',
      auth = token,
      meth = ''audio_analysis'',
      args = [PStr track_id],
      kwargs = [],
      wrap = Passthrough,
      failure_prefix = ''Failed to get audio analysis: ''\<rparr>"
| "shape (Get_audio_features token tracks) =
     \<lparr>name = ''get_audio_features'',
      auth = token,
      meth = ''audio_features'',
      args = [str_list tracks],
      kwargs = [],
      wrap = Placeholder ''audio_features'',
      failure_prefix = ''Failed to get audio features: ''\<rparr>"
| "shape (Get_available_markets token) =
     \<lparr>name = ''get_available_markets'',
      auth = token,
      meth = ''available_markets'',
      args = [],
      kwargs = [],
      wrap = Passthrough,
      failure_prefix = ''Failed to get available markets: ''\<rparr>"
| "shape (Get_categories token country locale limit offset) =
     \<lparr>name = ''get_categories'',
      auth = token,
      meth = ''categories'',
      args = [],
      kwargs = [(''country'', optional PStr country),
                 (''locale'', optional PStr locale),
                 (''limit'', PInt limit),
                 (''offset'', PInt offset)],
      wrap = Passthrough,
      failure_prefix = ''Failed to get categories: ''\<rparr>"
| "shape (Get_category token category_id country locale) =
     \<lparr>name = ''get_category'',
      auth = token,
      meth = ''category'',
      args = [PStr category_id],
      kwargs = [(''country'', optional PStr country), (''locale'', optional PStr locale)],
      wrap = Passthrough,
      failure_prefix = ''Failed to get category: ''\<rparr>"
| "shape (Get_category_playlists token category_id country limit offset) =
     \<lparr>name = ''get_category_playlists'',
      auth = token,
      meth = ''category_playlists'',
      args = [PStr category_id],
      kwargs = [(''country'', optional PStr country),
                 (''limit'', PInt limit),
                 (''offset'', PInt offset)],
      wrap = Passthrough,
      failure_prefix = ''Failed to get category playlists: ''\<rparr>"
| "shape (Get_episode token episode_id market) =
     \<lparr>name = ''get_episode'',
      auth = token,
      meth = ''episode'',
      args = [PStr episode_id],
      kwargs = [(''market'', optional PStr market)],
      wrap = Passthrough,
      failure_prefix = ''Failed to get episode: ''\<rparr>"
| "shape (Get_episodes token ids market) =
     \<lparr>name = ''get_episodes'',
      auth = token,
      meth = ''episodes'',
      args = [str_list ids],
      kwargs = [(''market'', optional PStr market)],
      wrap = Passthrough,
      failure_prefix = ''Failed to get episodes: ''\<rparr>"
| "shape (Get_featured_playlists token locale country timestamp limit offset) =
     \<lparr>name = ''get_featured_playlists'',
      auth = token,
      meth = ''featured_playlists'',
      args = [],
      kwargs = [(''locale'', optional PStr locale),
                 (''country'', optional PStr country),
                 (''timestamp'', optional PStr timestamp),
                 (''limit'', PInt limit),
                 (''offset'', PInt offset)],
      wrap = Passthrough,
      failure_prefix = ''Failed to get featured playlists: ''\<rparr>"
| "shape (Get_audiobook token id_p market) =
     \<lparr>name = ''get_audiobook'',
      auth = token,
      meth = ''get_audiobook'',
      args = [PStr id_p],
      kwargs = [(''market'', optional PStr market)],
      wrap = Passthrough,
      failure_prefix = ''Failed to get audiobook: ''\<rparr>"
| "shape (Get_audiobook_chapters token id_p market limit offset) =
     \<lparr>name = ''get_audiobook_chapters'',
      auth = token,
      meth = ''get_audiobook_chapters'',
      args = [PStr id_p],
      kwargs = [(''market'', optional PStr market),
                 (''limit'', PInt limit),
                 (''offset'', PInt offset)],
      wrap = Passthrough,
      failure_prefix = ''Failed to get audiobook chapters: ''\<rparr>"
| "shape (Get_audiobooks token ids market) =
     \<lparr>name = ''get_audiobooks'',
      auth = token,
      meth = ''get_audiobooks'',
      args = [str_list ids],
      kwargs = [(''market'', optional PStr market)],
      wrap = Passthrough,
      failure_prefix = ''Failed to get audiobooks: ''\<rparr>"
| "shape (Get_new_releases token country limit offset) =
     \<lparr>name = ''get_new_releases'',
      auth = token,
      meth = ''new_releases'',
      args = [],
      kwargs = [(''country'', optional PStr country),
                 (''limit'', PInt limit),
                 (''offset'', PInt offset)],
      wrap = Passthrough,
      failure_prefix = ''Failed to get new releases: ''\<rparr>"
| "shape (Get_playlist_info token playlist_id) =
     \<lparr>name = ''get_playlist_info'',
      auth = token,
      meth = ''playlist'',
      args = [PStr playlist_id],
      kwargs = [],
      wrap = Passthrough,
      failure_prefix = ''Failed to get playlist info: ''\<rparr>"
| "shape (Get_playlist_tracks token playlist_id fields_p limit offset market additional_types) =
     \<lparr>name = ''get_playlist_tracks'',
      auth = token,
      meth = ''playlist_tracks'',
      args = [PStr playlist_id],
      kwargs = [(''fields'', optional PStr fields_p),
                 (''limit'', PInt limit),
                 (''offset'', PInt offset),
                 (''market'', optional PStr market),
                 (''additional_types'', optional PStr additional_types)],
      wrap = Passthrough,
      failure_prefix = ''Failed to get playlist tracks: ''\<rparr>"
| "shape (Playlist_cover_image token playlist_id) =
     \<lparr>name = ''playlist_cover_image'',
      auth = token,
      meth = ''playlist_cover_image'',
      args = [PStr playlist_id],
      kwargs = [],
      wrap = Rewrap ''images'',
      failure_prefix = ''Failed to get playlist cover image: ''\<rparr>"
| "shape (Playlist_is_following token playlist_id user_ids) =
     \<lparr>name = ''playlist_is_following'',
      auth = token,
      meth = ''playlist_is_following'',
      args = [PStr playlist_id, str_list user_ids],
      kwargs = [],
      wrap = Rewrap ''following'',
      failure_prefix = ''Failed to check playlist following status: ''\<rparr>"
| "shape (Get_available_genres token) =
     \<lparr>name = ''get_available_genres'',
      auth = token,
      meth = ''recommendation_genre_seeds'',
      args = [],
      kwargs = [],
      wrap = Passthrough,
      failure_prefix = ''Failed to get available genres: ''\<rparr>"
| "shape (Get_recommendations token seed_artists seed_genres seed_tracks limit market
       min_acousticness max_acousticness target_acousticness min_danceability max_danceability
       target_danceability min_duration_ms max_duration_ms target_duration_ms min_energy
       max_energy target_energy min_instrumentalness max_instrumentalness
       target_instrumentalness min_key max_key target_key min_liveness max_liveness
       target_liveness min_loudness max_loudness target_loudness min_mode max_mode target_mode
       min_popularity max_popularity target_popularity min_speechiness max_speechiness
       target_speechiness min_tempo max_tempo target_tempo min_time_signature max_time_signature
       target_time_signature min_valence max_valence target_valence) =
     \<lparr>name = ''get_recommendations'',
      auth = token,
      meth = ''recommendations'',
      args = [],
      kwargs = [(''seed_artists'', optional str_list seed_artists),
                 (''seed_genres'', optional str_list seed_genres),
                 (''seed_tracks'', optional str_list seed_tracks),
                 (''limit'', PInt limit),
                 (''market'', optional PStr market),
                 (''min_acousticness'', optional PFloat min_acousticness),
                 (''max_acousticness'', optional PFloat max_acousticness),
                 (''target_acousticness'', optional PFloat target_acousticness),
                 (''min_danceability'', optional PFloat min_danceability),
                 (''max_danceability'', optional PFloat max_danceability),
                 (''target_danceability'', optional PFloat target_danceability),
                 (''min_duration_ms'', optional PInt min_duration_ms),
                 (''max_duration_ms'', optional PInt max_duration_ms),
                 (''target_duration_ms'', optional PInt target_duration_ms),
                 (''min_energy'', optional PFloat min_energy),
                 (''max_energy'', optional PFloat max_energy),
                 (''target_energy'', optional PFloat target_energy),
                 (''min_instrumentalness'', optional PFloat min_instrumentalness),
                 (''max_instrumentalness'', optional PFloat max_instrumentalness),
                 (''target_instrumentalness'', optional PFloat target_instrumentalness),
                 (''min_key'', optional PInt min_key),
                 (''max_key'', optional PInt max_key),
                 (''target_key'', optional PInt target_key),
                 (''min_liveness'', optional PFloat min_liveness),
                 (''max_liveness'', optional PFloat max_liveness),
                 (''target_liveness'', optional PFloat target_liveness),
                 (''min_loudness'', optional PFloat min_loudness),
                 (''max_loudness'', optional PFloat max_loudness),
                 (''target_loudness'', optional PFloat target_loudness),
                 (''min_mode'', optional PInt min_mode),
                 (''max_mode'', optional PInt max_mode),
                 (''target_mode'', optional PInt target_mode),
                 (''min_popularity'', optional PInt min_popularity),
                 (''max_popularity'', optional PInt max_popularity),
                 (''target_popularity'', optional PInt target_popularity),
                 (''min_speechiness'', optional PFloat min_speechiness),
                 (''max_speechiness'', optional PFloat max_speechiness),
                 (''target_speechiness'', optional PFloat target_speechiness),
                 (''min_tempo'', optional PFloat min_tempo),
                 (''max_tempo'', optional PFloat max_tempo),
                 (''target_tempo'', optional PFloat target_tempo),
                 (''min_time_signature'', optional PInt min_time_signature),
                 (''max_time_signature'', optional PInt max_time_signature),
                 (''target_time_signature'', optional PInt target_time_signature),
                 (''min_valence'', optional PFloat min_valence),
                 (''max_valence'', optional PFloat max_valence),
                 (''target_valence'', optional PFloat target_valence)],
      wrap = Passthrough,
      failure_prefix = ''Failed to get recommendations: ''\<rparr>"
| "shape (Search_tracks token query limit offset) =
     \<lparr>name = ''search_tracks'',
      auth = token,
      meth = ''search'',
      args = [],
      kwargs = [(''q'', PStr query),
                 (''type'', PStr ''track''),
                 (''limit'', PInt limit),
                 (''offset'', PInt offset)],
      wrap = Passthrough,
      failure_prefix = ''Track search failed: ''\<rparr>"
| "shape (Search_artists token query limit offset) =
     \<lparr>name = ''search_artists'',
      auth = token,
      meth = ''search'',
      args = [],
      kwargs = [(''q'', PStr query),
                 (''type'', PStr ''artist''),
                 (''limit'', PInt limit),
                 (''offset'', PInt offset)],
      wrap = Passthrough,
      failure_prefix = ''Artist search failed: ''\<rparr>"
| "shape (Search_albums token query limit offset) =
     \<lparr>name = ''search_albums'',
      auth = token,
      meth = ''search'',
      args = [],
      kwargs = [(''q'', PStr query),
                 (''type'', PStr ''album''),
                 (''limit'', PInt limit),
                 (''offset'', PInt offset)],
      wrap = Passthrough,
      failure_prefix = ''Album search failed: ''\<rparr>"
| "shape (Search_playlists token query limit offset) =
     \<lparr>name = ''search_playlists'',
      auth = token,
      meth = ''search'',
      args = [],
      kwargs = [(''q'', PStr query),
                 (''type'', PStr ''playlist''),
                 (''limit'', PInt limit),
                 (''offset'', PInt offset)],
      wrap = Passthrough,
      failure_prefix = ''Playlist search failed: ''\<rparr>"
| "shape (Get_show token show_id market) =
     \<lparr>name = ''get_show'',
      auth = token,
      meth = ''show'',
      args = [PStr show_id],
      kwargs = [(''market'', optional PStr market)],
      wrap = Passthrough,
      failure_prefix = ''Failed to get show: ''\<rparr>"
| "shape (Get_show_episodes token show_id limit offset market) =
     \<lparr>name = ''get_show_episodes'',
      auth = token,
      meth = ''show_episodes'',
      args = [PStr show_id],
      kwargs = [(''limit'', PInt limit),
                 (''offset'', PInt offset),
                 (''market'', optional PStr market)],
      wrap = Passthrough,
      failure_prefix = ''Failed to get show episodes: ''\<rparr>"
| "shape (Get_shows token ids market) =
     \<lparr>name = ''get_shows'',
      auth = token,
      meth = ''shows'',
      args = [str_list ids],
      kwargs = [(''market'', optional PStr market)],
      wrap = Passthrough,
      failure_prefix = ''Failed to get shows: ''\<rparr>"
| "shape (Get_track_info token track_id) =
     \<lparr>name = ''get_track_info'',
      auth = token,
      meth = ''track'',
      args = [PStr track_id],
      kwargs = [],
      wrap = Passthrough,
      failure_prefix = ''Failed to get track info: ''\<rparr>"
| "shape (Get_tracks token ids market) =
     \<lparr>name = ''get_tracks'',
      auth = token,
      meth = ''tracks'',
      args = [str_list ids],
      kwargs = [(''market'', optional PStr market)],
      wrap = Passthrough,
      failure_prefix = ''Failed to get tracks: ''\<rparr>"
| "shape (Get_user token user_id) =
     \<lparr>name = ''get_user'',
      auth = token,
      meth = ''user'',
      args = [PStr user_id],
      kwargs = [],
      wrap = Passthrough,
      failure_prefix = ''Failed to get user: ''\<rparr>"
| "shape (Get_user_playlists token user_id limit offset) =
     \<lparr>name = ''get_user_playlists'',
      auth = token,
      meth = ''user_playlists'',
      args = [PStr user_id],
      kwargs = [(''limit'', PInt limit), (''offset'', PInt offset)],
      wrap = Passthrough,
      failure_prefix = ''Failed to get user playlists: ''\<rparr>"
| "shape (Get_current_playback token market additional_types) =
     \<lparr>name = ''get_current_playback'',
      auth = token,
      meth = ''current_playback'',
      args = [],
      kwargs = [(''market'', optional PStr market),
                 (''additional_types'', optional PStr additional_types)],
      wrap = Placeholder ''playback'',
      failure_prefix = ''Failed to get current playback: ''\<rparr>"
| "shape (Get_current_user token) =
     \<lparr>name = ''get_current_user'',
      auth = token,
      meth = ''current_user'',
      args = [],
      kwargs = [],
      wrap = Passthrough,
      failure_prefix = ''Failed to get current user: ''\<rparr>"
| "shape (Get_current_user_followed_artists token limit after) =
     \<lparr>name = ''get_current_user_followed_artists'',
      auth = token,
      meth = ''current_user_followed_artists'',
      args = [],
      kwargs = [(''limit'', PInt limit), (''after'', optional PStr after)],
      wrap = Passthrough,
      failure_prefix = ''Failed to get followed artists: ''\<rparr>"
| "shape (Check_current_user_following_artists token ids) =
     \<lparr>name = ''check_current_user_following_artists'',
      auth = token,
      meth = ''current_user_following_artists'',
      args = [],
      kwargs = [(''ids'', str_list ids)],
      wrap = Rewrap ''following'',
      failure_prefix = ''Failed to check if following artists: ''\<rparr>"
| "shape (Check_current_user_following_users token ids) =
     \<lparr>name = ''check_current_user_following_users'',
      auth = token,
      meth = ''current_user_following_users'',
      args = [],
      kwargs = [(''ids'', str_list ids)],
      wrap = Rewrap ''following'',
      failure_prefix = ''Failed to check if following users: ''\<rparr>"
| "shape (Get_current_user_playing_track token) =
     \<lparr>name = ''get_current_user_playing_track'',
      auth = token,
      meth = ''current_user_playing_track'',
      args = [],
      kwargs = [],
      wrap = Placeholder ''track'',
      failure_prefix = ''Failed to get currently playing track: ''\<rparr>"
| "shape (Get_current_user_playlists token limit offset) =
     \<lparr>name = ''get_current_user_playlists'',
      auth = token,
      meth = ''current_user_playlists'',
      args = [],
      kwargs = [(''limit'', PInt limit), (''offset'', PInt offset)],
      wrap = Passthrough,
      failure_prefix = ''Failed to get current user playlists: ''\<rparr>"
| "shape (Get_current_user_recently_played token limit after before) =
     \<lparr>name = ''get_current_user_recently_played'',
      auth = token,
      meth = ''current_user_recently_played'',
      args = [],
      kwargs = [(''limit'', PInt limit),
                 (''after'', optional PInt after),
                 (''before'', optional PInt before)],
      wrap = Passthrough,
      failure_prefix = ''Failed to get recently played tracks: ''\<rparr>"
| "shape (Get_current_user_saved_albums token limit offset market) =
     \<lparr>name = ''get_current_user_saved_albums'',
      auth = token,
      meth = ''current_user_saved_albums'',
      args = [],
      kwargs = [(''limit'', PInt limit),
                 (''offset'', PInt offset),
                 (''market'', optional PStr market)],
      wrap = Passthrough,
      failure_prefix = ''Failed to get saved albums: ''\<rparr>"
| "shape (Check_current_user_saved_albums token albums) =
     \<lparr>name = ''check_current_user_saved_albums'',
      auth = token,
      meth = ''current_user_saved_albums_contains'',
      args = [],
      kwargs = [(''albums'', str_list albums)],
      wrap = Rewrap ''saved'',
      failure_prefix = ''Failed to check saved albums: ''\<rparr>"
| "shape (Get_current_user_saved_episodes token limit offset market) =
     \<lparr>name = ''get_current_user_saved_episodes'',
      auth = token,
      meth = ''current_user_saved_episodes'',
      args = [],
      kwargs = [(''limit'', PInt limit),
                 (''offset'', PInt offset),
                 (''market'', optional PStr market)],
      wrap = Passthrough,
      failure_prefix = ''Failed to get saved episodes: ''\<rparr>"
| "shape (Check_current_user_saved_episodes token episodes) =
     \<lparr>name = ''check_current_user_saved_episodes'',
      auth = token,
      meth = ''current_user_saved_episodes_contains'',
      args = [],
      kwargs = [(''episodes'', str_list episodes)],
      wrap = Rewrap ''saved'',
      failure_prefix = ''Failed to check saved episodes: ''\<rparr>"
| "shape (Get_current_user_saved_shows token limit offset market) =
     \<lparr>name = ''get_current_user_saved_shows'',
      auth = token,
      meth = ''current_user_saved_shows'',
      args = [],
      kwargs = [(''limit'', PInt limit),
                 (''offset'', PInt offset),
                 (''market'', optional PStr market)],
      wrap = Passthrough,
      failure_prefix = ''Failed to get saved shows: ''\<rparr>"
| "shape (Check_current_user_saved_shows token shows) =
     \<lparr>name = ''check_current_user_saved_shows'',
      auth = token,
      meth = ''current_user_saved_shows_contains'',
      args = [],
      kwargs = [(''shows'', str_list shows)],
      wrap = Rewrap ''saved'',
      failure_prefix = ''Failed to check saved shows: ''\<rparr>"
| "shape (Get_current_user_saved_tracks token limit offset market) =
     \<lparr>name = ''get_current_user_saved_tracks'',
      auth = token,
      meth = ''current_user_saved_tracks'',
      args = [],
      kwargs = [(''limit'', PInt limit),
                 (''offset'', PInt offset),
                 (''market'', optional PStr market)],
      wrap = Passthrough,
      failure_prefix = ''Failed to get saved tracks: ''\<rparr>"
| "shape (Check_current_user_saved_tracks token tracks) =
     \<lparr>name = ''check_current_user_saved_tracks'',
      auth = token,
      meth = ''current_user_saved_tracks_contains'',
      args = [],
      kwargs = [(''tracks'', str_list tracks)],
      wrap = Rewrap ''saved'',
      failure_prefix = ''Failed to check saved tracks: ''\<rparr>"
| "shape (Get_current_user_top_artists token limit offset time_range) =
     \<lparr>name = ''get_current_user_top_artists'',
      auth = token,
      meth = ''current_user_top_artists'',
      args = [],
      kwargs = [(''limit'', PInt limit),
                 (''offset'', PInt offset),
                 (''time_range'', PStr time_range)],
      wrap = Passthrough,
      failure_prefix = ''Failed to get top artists: ''\<rparr>"
| "shape (Get_current_user_top_tracks token limit offset time_range) =
     \<lparr>name = ''get_current_user_top_tracks'',
      auth = token,
      meth = ''current_user_top_tracks'',
      args = [],
      kwargs = [(''limit'', PInt limit),
                 (''offset'', PInt offset),
                 (''time_range'', PStr time_range)],
      wrap = Passthrough,
      failure_prefix = ''Failed to get top tracks: ''\<rparr>"
| "shape (Get_currently_playing token market additional_types) =
     \<lparr>name = ''get_currently_playing'',
      auth = token,
      meth = ''currently_playing'',
      args = [],
      kwargs = [(''market'', optional PStr market),
                 (''additional_types'', optional PStr additional_types)],
      wrap = Placeholder ''currently_playing'',
      failure_prefix = ''Failed to get currently playing: ''\<rparr>"
| "shape (Get_devices token) =
     \<lparr>name = ''get_devices'',
      auth = token,
      meth = ''devices'',
      args = [],
      kwargs = [],
      wrap = Passthrough,
      failure_prefix = ''Failed to get devices: ''\<rparr>"
| "shape (Get_playlist_items token playlist_id fields_p limit offset market additional_types) =
     \<lparr>name = ''get_playlist_items'',
      auth = token,
      meth = ''playlist_items'',
      args = [PStr playlist_id],
      kwargs = [(''fields'', optional PStr fields_p),
                 (''limit'', PInt limit),
                 (''offset'', PInt offset),
                 (''market'', optional PStr market),
                 (''additional_types'', 
        (if additional_types \<noteq> [] then PTuple (map PStr (split additional_types CHR '',''))
         else PTuple [PStr ''track'', PStr ''episode'']))],
      wrap = Passthrough,
      failure_prefix = ''Failed to get playlist items: ''\<rparr>"
| "shape (Get_queue token) =
     \<lparr>name = ''get_queue'',
      auth = token,
      meth = ''queue'',
      args = [],
      kwargs = [],
      wrap = Passthrough,
      failure_prefix = ''Failed to get queue: ''\<rparr>"
| "shape (Search_general token query limit offset type_p market) =
     \<lparr>name = ''search_general'',
      auth = token,
      meth = ''search'',
      args = [],
      kwargs = [(''q'', PStr query),
                 (''limit'', PInt limit),
                 (''offset'', PInt offset),
                 (''type'', PStr type_p),
                 (''market'', optional PStr market)],
      wrap = Passthrough,
      failure_prefix = ''Search failed: ''\<rparr>"
| "shape (Search_markets token query limit offset type_p markets total_p) =
     \<lparr>name = ''search_markets'',
      auth = token,
      meth = ''search_markets'',
      args = [],
      kwargs = [(''q'', PStr query),
                 (''limit'', PInt limit),
                 (''offset'', PInt offset),
                 (''type'', PStr type_p),
                 (''markets'', optional str_list markets),
                 (''total'', optional PInt total_p)],
      wrap = Passthrough,
      failure_prefix = ''Multi-market search failed: ''\<rparr>"
| "shape (Get_user_playlist token user_id playlist_id fields_p market) =
     \<lparr>name = ''get_user_playlist'',
      auth = token,
      meth = ''user_playlist'',
      args = [PStr user_id, PStr playlist_id],
      kwargs = [(''fields'', optional PStr fields_p), (''market'', optional PStr market)],
      wrap = Passthrough,
      failure_prefix = ''Failed to get user playlist: ''\<rparr>"

primrec params :: "tool_call \<Rightarrow> (string \<times> pyval) list" where
  "params (Get_album_info token album_id market) =
     [(''album_id'', PStr album_id), (''market'', optional PStr market)]"
| "params (Get_album_tracks token album_id limit offset market) =
     [(''album_id'', PStr album_id),
      (''limit'', PInt limit),
      (''offset'', PInt offset),
      (''market'', optional PStr market)]"
| "params (Get_albums token albums market) =
     [(''albums'', str_list albums), (''market'', optional PStr market)]"
| "params (Get_artist_info token artist_id) = [(''artist_id'', PStr artist_id)]"
| "params (Get_artist_albums token artist_id album_type include_groups country limit offset) =
     [(''artist_id'', PStr artist_id),
      (''album_type'', optional PStr album_type),
      (''include_groups'', optional PStr include_groups),
      (''country'', optional PStr country),
      (''limit'', PInt limit),
      (''offset'', PInt offset)]"
| "params (Get_artist_related_artists token artist_id) = [(''artist_id'', PStr artist_id)]"
| "params (Get_artist_top_tracks token artist_id country) =
     [(''artist_id'', PStr artist_id), (''country'', PStr country)]"
| "params (Get_artists token artists) = [(''artists'', str_list artists)]"
| "params (Get_audio_analysis token track_id) = [(''track_id'', PStr track_id)]"
| "params (Get_audio_features token tracks) = [(''tracks'', str_list tracks)]"
| "params (Get_available_markets token) = []"
| "params (Get_categories token country locale limit offset) =
     [(''country'', optional PStr country),
      (''locale'', optional PStr locale),
      (''limit'', PInt limit),
      (''offset'', PInt offset)]"
| "params (Get_category token category_id country locale) =
     [(''category_id'', PStr category_id),
      (''country'', optional PStr country),
      (''locale'', optional PStr locale)]"
| "params (Get_category_playlists token category_id country limit offset) =
     [(''category_id'', PStr category_id),
      (''country'', optional PStr country),
      (''limit'', PInt limit),
      (''offset'', PInt offset)]"
| "params (Get_episode token episode_id market) =
     [(''episode_id'', PStr episode_id), (''market'', optional PStr market)]"
| "params (Get_episodes token ids market) =
     [(''ids'', str_list ids), (''market'', optional PStr market)]"
| "params (Get_featured_playlists token locale country timestamp limit offset) =
     [(''locale'', optional PStr locale),
      (''country'', optional PStr country),
      (''timestamp'', optional PStr timestamp),
      (''limit'', PInt limit),
      (''offset'', PInt offset)]"
| "params (Get_audiobook token id_p market) =
     [(''id'', PStr id_p), (''market'', optional PStr market)]"
| "params (Get_audiobook_chapters token id_p market limit offset) =
     [(''id'', PStr id_p),
      (''market'', optional PStr market),
      (''limit'', PInt limit),
      (''offset'', PInt offset)]"
| "params (Get_audiobooks token ids market) =
     [(''ids'', str_list ids), (''market'', optional PStr market)]"
| "params (Get_new_releases token country limit offset) =
     [(''country'', optional PStr country),
      (''limit'', PInt limit),
      (''offset'', PInt offset)]"
| "params (Get_playlist_info token playlist_id) = [(''playlist_id'', PStr playlist_id)]"
| "params (Get_playlist_tracks token playlist_id fields_p limit offset market additional_types) =
     [(''playlist_id'', PStr playlist_id),
      (''fields'', optional PStr fields_p),
      (''limit'', PInt limit),
      (''offset'', PInt offset),
      (''market'', optional PStr market),
      (''additional_types'', optional PStr additional_types)]"
| "params (Playlist_cover_image token playlist_id) = [(''playlist_id'', PStr playlist_id)]"
| "params (Playlist_is_following token playlist_id user_ids) =
     [(''playlist_id'', PStr playlist_id), (''user_ids'', str_list user_ids)]"
| "params (Get_available_genres token) = []"
| "params (Get_recommendations token seed_artists seed_genres seed_tracks limit market
       min_acousticness max_acousticness target_acousticness min_danceability max_danceability
       target_danceability min_duration_ms max_duration_ms target_duration_ms min_energy
       max_energy target_energy min_instrumentalness max_instrumentalness
       target_instrumentalness min_key max_key target_key min_liveness max_liveness
       target_liveness min_loudness max_loudness target_loudness min_mode max_mode target_mode
       min_popularity max_popularity target_popularity min_speechiness max_speechiness
       target_speechiness min_tempo max_tempo target_tempo min_time_signature max_time_signature
       target_time_signature min_valence max_valence target_valence) =
     [(''seed_artists'', optional str_list seed_artists),
      (''seed_genres'', optional str_list seed_genres),
      (''seed_tracks'', optional str_list seed_tracks),
      (''limit'', PInt limit),
      (''market'', optional PStr market),
      (''min_acousticness'', optional PFloat min_acousticness),
      (''max_acousticness'', optional PFloat max_acousticness),
      (''target_acousticness'', optional PFloat target_acousticness),
      (''min_danceability'', optional PFloat min_danceability),
      (''max_danceability'', optional PFloat max_danceability),
      (''target_danceability'', optional PFloat target_danceability),
      (''min_duration_ms'', optional PInt min_duration_ms),
      (''max_duration_ms'', optional PInt max_duration_ms),
      (''target_duration_ms'', optional PInt target_duration_ms),
      (''min_energy'', optional PFloat min_energy),
      (''max_energy'', optional PFloat max_energy),
      (''target_energy'', optional PFloat target_energy),
      (''min_instrumentalness'', optional PFloat min_instrumentalness),
      (''max_instrumentalness'', optional PFloat max_instrumentalness),
      (''target_instrumentalness'', optional PFloat target_instrumentalness),
      (''min_key'', optional PInt min_key),
      (''max_key'', optional PInt max_key),
      (''target_key'', optional PInt target_key),
      (''min_liveness'', optional PFloat min_liveness),
      (''max_liveness'', optional PFloat max_liveness),
      (''target_liveness'', optional PFloat target_liveness),
      (''min_loudness'', optional PFloat min_loudness),
      (''max_loudness'', optional PFloat max_loudness),
      (''target_loudness'', optional PFloat target_loudness),
      (''min_mode'', optional PInt min_mode),
      (''max_mode'', optional PInt max_mode),
      (''target_mode'', optional PInt target_mode),
      (''min_popularity'', optional PInt min_popularity),
      (''max_popularity'', optional PInt max_popularity),
      (''target_popularity'', optional PInt target_popularity),
      (''min_speechiness'', optional PFloat min_speechiness),
      (''max_speechiness'', optional PFloat max_speechiness),
      (''target_speechiness'', optional PFloat target_speechiness),
      (''min_tempo'', optional PFloat min_tempo),
      (''max_tempo'', optional PFloat max_tempo),
      (''target_tempo'', optional PFloat target_tempo),
      (''min_time_signature'', optional PInt min_time_signature),
      (''max_time_signature'', optional PInt max_time_signature),
      (''target_time_signature'', optional PInt target_time_signature),
      (''min_valence'', optional PFloat min_valence),
      (''max_valence'', optional PFloat max_valence),
      (''target_valence'', optional PFloat target_valence)]"
| "params (Search_tracks token query limit offset) =
     [(''query'', PStr query), (''limit'', PInt limit), (''offset'', PInt offset)]"
| "params (Search_artists token query limit offset) =
     [(''query'', PStr query), (''limit'', PInt limit), (''offset'', PInt offset)]"
| "params (Search_albums token query limit offset) =
     [(''query'', PStr query), (''limit'', PInt limit), (''offset'', PInt offset)]"
| "params (Search_playlists token query limit offset) =
     [(''query'', PStr query), (''limit'', PInt limit), (''offset'', PInt offset)]"
| "params (Get_show token show_id market) =
     [(''show_id'', PStr show_id), (''market'', optional PStr market)]"
| "params (Get_show_episodes token show_id limit offset market) =
     [(''show_id'', PStr show_id),
      (''limit'', PInt limit),
      (''offset'', PInt offset),
      (''market'', optional PStr market)]"
| "params (Get_shows token ids market) =
     [(''ids'', str_list ids), (''market'', optional PStr market)]"
| "params (Get_track_info token track_id) = [(''track_id'', PStr track_id)]"
| "params (Get_tracks token ids market) =
     [(''ids'', str_list ids), (''market'', optional PStr market)]"
| "params (Get_user token user_id) = [(''user_id'', PStr user_id)]"
| "params (Get_user_playlists token user_id limit offset) =
     [(''user_id'', PStr user_id), (''limit'', PInt limit), (''offset'', PInt offset)]"
| "params (Get_current_playback token market additional_types) =
     [(''market'', optional PStr market),
      (''additional_types'', optional PStr additional_types)]"
| "params (Get_current_user token) = []"
| "params (Get_current_user_followed_artists token limit after) =
     [(''limit'', PInt limit), (''after'', optional PStr after)]"
| "params (Check_current_user_following_artists token ids) = [(''ids'', str_list ids)]"
| "params (Check_current_user_following_users token ids) = [(''ids'', str_list ids)]"
| "params (Get_current_user_playing_track token) = []"
| "params (Get_current_user_playlists token limit offset) =
     [(''limit'', PInt limit), (''offset'', PInt offset)]"
| "params (Get_current_user_recently_played token limit after before) =
     [(''limit'', PInt limit),
      (''after'', optional PInt after),
      (''before'', optional PInt before)]"
| "params (Get_current_user_saved_albums token limit offset market) =
     [(''limit'', PInt limit),
      (''offset'', PInt offset),
      (''market'', optional PStr market)]"
| "params (Check_current_user_saved_albums token albums) = [(''albums'', str_list albums)]"
| "params (Get_current_user_saved_episodes token limit offset market) =
     [(''limit'', PInt limit),
      (''offset'', PInt offset),
      (''market'', optional PStr market)]"
| "params (Check_current_user_saved_episodes token episodes) =
     [(''episodes'', str_list episodes)]"
| "params (Get_current_user_saved_shows token limit offset market) =
     [(''limit'', PInt limit),
      (''offset'', PInt offset),
      (''market'', optional PStr market)]"
| "params (Check_current_user_saved_shows token shows) = [(''shows'', str_list shows)]"
| "params (Get_current_user_saved_tracks token limit offset market) =
     [(''limit'', PInt limit),
      (''offset'', PInt offset),
      (''market'', optional PStr market)]"
| "params (Check_current_user_saved_tracks token tracks) = [(''tracks'', str_list tracks)]"
| "params (Get_current_user_top_artists token limit offset time_range) =
     [(''limit'', PInt limit), (''offset'', PInt offset), (''time_range'', PStr time_range)]"
| "params (Get_current_user_top_tracks token limit offset time_range) =
     [(''limit'', PInt limit), (''offset'', PInt offset), (''time_range'', PStr time_range)]"
| "params (Get_currently_playing token market additional_types) =
     [(''market'', optional PStr market),
      (''additional_types'', optional PStr additional_types)]"
| "params (Get_devices token) = []"
| "params (Get_playlist_items token playlist_id fields_p limit offset market additional_types) =
     [(''playlist_id'', PStr playlist_id),
      (''fields'', optional PStr fields_p),
      (''limit'', PInt limit),
      (''offset'', PInt offset),
      (''market'', optional PStr market),
      (''additional_types'', PStr additional_types)]"
| "params (Get_queue token) = []"
| "params (Search_general token query limit offset type_p market) =
     [(''query'', PStr query),
      (''limit'', PInt limit),
      (''offset'', PInt offset),
      (''type'', PStr type_p),
      (''market'', optional PStr market)]"
| "params (Search_markets token query limit offset type_p markets total_p) =
     [(''query'', PStr query),
      (''limit'', PInt limit),
      (''offset'', PInt offset),
      (''type'', PStr type_p),
      (''markets'', optional str_list markets),
      (''total'', optional PInt total_p)]"
| "params (Get_user_playlist token user_id playlist_id fields_p market) =
     [(''user_id'', PStr user_id),
      (''playlist_id'', PStr playlist_id),
      (''fields'', optional PStr fields_p),
      (''market'', optional PStr market)]"

text \<open>
  One boundary around one delegated call: build the client, call the method, treat the
  value, and turn an exception of either step into the error dict.
\<close>

definition perform :: "('h, 'w) spotipy \<Rightarrow> tool_shape \<Rightarrow> 'w \<Rightarrow> pyval \<times> 'w" where
  "perform sp s w =
     (case Spotify sp (auth s) w of
        (Inl e, w1) \<Rightarrow> (error_result (failure_prefix s) e, w1)
      | (Inr h, w1) \<Rightarrow>
          (case call_method sp h (meth s) (args s) (kwargs s) w1 of
             (Inl e, w2) \<Rightarrow> (error_result (failure_prefix s) e, w2)
           | (Inr r, w2) \<Rightarrow> (finish (wrap s) r, w2)))"

section \<open>Observing the library\<close>

text \<open>
  To say which calls a tool makes and what came back from them, the library is wrapped so
  that every construction of a client and every method call is appended to a log, with its
  arguments and with what it returned or raised.  The wrapped library behaves as the
  original one does.
\<close>

datatype 'h event =
    Constructed string "exception + 'h"
  | Called 'h string "pyval list" "(string \<times> pyval) list" "exception + pyval"

definition logged :: "('h, 'w) spotipy \<Rightarrow> ('h, 'w \<times> 'h event list) spotipy" where
  "logged sp =
     \<lparr>Spotify = (\<lambda>token (w, lg).
        case Spotify sp token w of (r, w') \<Rightarrow> (r, (w', lg @ [Constructed token r]))),
      call_method = (\<lambda>h m a k (w, lg).
        case call_method sp h m a k w of (r, w') \<Rightarrow> (r, (w', lg @ [Called h m a k r])))\<rparr>"

text \<open>
  The outcome of the delegated work recorded in a log: the exception of a construction
  that failed, otherwise what the first method call returned or raised.
\<close>

fun outcome :: "'h event list \<Rightarrow> (exception + pyval) option" where
  "outcome [] = None"
| "outcome (Constructed t (Inl e) # es) = Some (Inl e)"
| "outcome (Constructed t (Inr h) # es) = outcome es"
| "outcome (Called h m a k r # es) = Some r"

fun calls :: "'h event list \<Rightarrow> ('h \<times> string \<times> pyval list \<times> (string \<times> pyval) list) list" where
  "calls [] = []"
| "calls (Constructed t r # es) = calls es"
| "calls (Called h m a k r # es) = (h, m, a, k) # calls es"

text \<open>
  A library for examples: the client of a token is the token, the constructor refuses the
  empty token, a method call answers by a fixed table, and the world counts the calls.
\<close>

definition scripted :: "(string \<Rightarrow> exception + pyval) \<Rightarrow> (string, nat) spotipy" where
  "scripted reply =
     \<lparr>Spotify = (\<lambda>token w.
        (if token = [] then Inl (Exception ''no token'') else Inr token, w + 1)),
      call_method = (\<lambda>h m a k w. (reply m, w + 1))\<rparr>"

text \<open>The same library on a world that no call changes.\<close>

definition steady :: "(string \<Rightarrow> exception + pyval) \<Rightarrow> (string, nat) spotipy" where
  "steady reply =
     \<lparr>Spotify = (\<lambda>token w.
        (if token = [] then Inl (Exception ''no token'') else Inr token, w)),
      call_method = (\<lambda>h m a k w. (reply m, w))\<rparr>"

text \<open>
  Two tables of answers: a service on which nothing is there (every method returns
  \<^verbatim>\<open>None\<close>), and one with a track, an artist entry that carries a field named
  \<^verbatim>\<open>error\<close>, a playlist cover, two saved-track answers and a failing device list.
\<close>

definition idle_reply :: "string \<Rightarrow> exception + pyval" where
  "idle_reply m = Inr PNone"

definition demo_reply :: "string \<Rightarrow> exception + pyval" where
  "demo_reply m =
     (if m = ''track'' then Inr (PDict [(''id'', PStr ''abc123'')])
      else if m = ''artist'' then Inr (PDict [(''error'', PStr ''moved'')])
      else if m = ''playlist_cover_image'' then Inr (PList [PDict [(''url'', PStr ''u'')]])
      else if m = ''current_user_saved_tracks_contains''
        then Inr (PList [PBool True, PBool False])
      else if m = ''devices'' then Inl (Exception ''offline'')
      else Inr PNone)"

section \<open>Every tool has the common shape\<close>

lemmas tool_defs =
  get_album_info_def get_album_tracks_def get_albums_def get_artist_info_def
  get_artist_albums_def get_artist_related_artists_def get_artist_top_tracks_def
  get_artists_def get_audio_analysis_def get_audio_features_def get_available_markets_def
  get_categories_def get_category_def get_category_playlists_def
  get_episode_def get_episodes_def get_featured_playlists_def get_audiobook_def
  get_audiobook_chapters_def get_audiobooks_def get_new_releases_def
  get_playlist_info_def get_playlist_tracks_def playlist_cover_image_def
  playlist_is_following_def get_available_genres_def get_recommendations_def
  search_tracks_def search_artists_def search_albums_def search_playlists_def
  get_show_def get_show_episodes_def get_shows_def get_track_info_def get_tracks_def
  get_user_def get_user_playlists_def get_current_playback_def get_current_user_def
  get_current_user_followed_artists_def check_current_user_following_artists_def
  check_current_user_following_users_def get_current_user_playing_track_def
  get_current_user_playlists_def get_current_user_recently_played_def
  get_current_user_saved_albums_def check_current_user_saved_albums_def
  get_current_user_saved_episodes_def check_current_user_saved_episodes_def
  get_current_user_saved_shows_def check_current_user_saved_shows_def
  get_current_user_saved_tracks_def check_current_user_saved_tracks_def
  get_current_user_top_artists_def get_current_user_top_tracks_def
  get_currently_playing_def get_devices_def get_playlist_items_def get_queue_def
  search_general_def search_markets_def get_user_playlist_def

lemma tool_body:
  "try_except
     (bind_io (get_spotify_client sp t) (\<lambda>spotify.
      bind_io (call_method sp spotify m a k) (\<lambda>r. return_io (f r)))) hdl =
   (\<lambda>w. case Spotify sp t w of
      (Inl e, w1) \<Rightarrow> (hdl e, w1)
    | (Inr h, w1) \<Rightarrow>
        (case call_method sp h m a k w1 of
           (Inl e, w2) \<Rightarrow> (hdl e, w2)
         | (Inr r, w2) \<Rightarrow> (f r, w2)))"
  by (auto simp: try_except_def bind_io_def return_io_def get_spotify_client_def fun_eq_iff
      split: prod.splits sum.splits)

lemma call_tool_perform: "call_tool sp c = perform sp (shape c)"
  by (cases c)
     (simp_all add: tool_defs tool_body Let_def perform_def error_result_def fun_eq_iff
        split: prod.splits sum.splits)

lemma perform_logged:
  "perform (logged sp) s (w, lg) =
     (case Spotify sp (auth s) w of
        (Inl e, w1) \<Rightarrow>
          (error_result (failure_prefix s) e, (w1, lg @ [Constructed (auth s) (Inl e)]))
      | (Inr h, w1) \<Rightarrow>
          (case call_method sp h (meth s) (args s) (kwargs s) w1 of
             (Inl e, w2) \<Rightarrow>
               (error_result (failure_prefix s) e,
                (w2, lg @ [Constructed (auth s) (Inr h),
                           Called h (meth s) (args s) (kwargs s) (Inl e)]))
           | (Inr r, w2) \<Rightarrow>
               (finish (wrap s) r,
                (w2, lg @ [Constructed (auth s) (Inr h),
                           Called h (meth s) (args s) (kwargs s) (Inr r)]))))"
  by (simp add: perform_def logged_def split: prod.splits sum.splits)

text \<open>The three ways a run against the observed library can go.\<close>

lemma call_tool_logged_cases:
  assumes "call_tool (logged sp) c (w, lg) = (res, (w', lg'))"
  obtains
    (construct_failed) e where
      "Spotify sp (auth (shape c)) w = (Inl e, w')"
      "lg' = lg @ [Constructed (auth (shape c)) (Inl e)]"
      "res = error_result (failure_prefix (shape c)) e"
  | (call_failed) h w1 e where
      "Spotify sp (auth (shape c)) w = (Inr h, w1)"
      "call_method sp h (meth (shape c)) (args (shape c)) (kwargs (shape c)) w1 = (Inl e, w')"
      "lg' = lg @ [Constructed (auth (shape c)) (Inr h),
                   Called h (meth (shape c)) (args (shape c)) (kwargs (shape c)) (Inl e)]"
      "res = error_result (failure_prefix (shape c)) e"
  | (returned) h w1 r where
      "Spotify sp (auth (shape c)) w = (Inr h, w1)"
      "call_method sp h (meth (shape c)) (args (shape c)) (kwargs (shape c)) w1 = (Inr r, w')"
      "lg' = lg @ [Constructed (auth (shape c)) (Inr h),
                   Called h (meth (shape c)) (args (shape c)) (kwargs (shape c)) (Inr r)]"
      "res = finish (wrap (shape c)) r"
  using assms unfolding call_tool_perform perform_logged
  by (auto split: prod.splits sum.splits)

lemma outcome_raised:
  assumes "call_tool (logged sp) c (w, []) = (res, (w', lg))"
    and "outcome lg = Some (Inl e)"
  shows "res = error_result (failure_prefix (shape c)) e"
  using assms(1)
proof (cases rule: call_tool_logged_cases)
  case (construct_failed e')
  with assms(2) show ?thesis by simp
next
  case (call_failed h w1 e')
  with assms(2) show ?thesis by simp
next
  case (returned h w1 r)
  with assms(2) show ?thesis by simp
qed

lemma outcome_returned:
  assumes "call_tool (logged sp) c (w, []) = (res, (w', lg))"
    and "outcome lg = Some (Inr r)"
  shows "res = finish (wrap (shape c)) r"
  using assms(1)
proof (cases rule: call_tool_logged_cases)
  case (construct_failed e')
  with assms(2) show ?thesis by simp
next
  case (call_failed h w1 e')
  with assms(2) show ?thesis by simp
next
  case (returned h w1 r')
  with assms(2) show ?thesis by simp
qed

lemma outcome_exists:
  assumes "call_tool (logged sp) c (w, []) = (res, (w', lg))"
  shows "\<exists>x. outcome lg = Some x"
  using assms by (cases rule: call_tool_logged_cases) simp_all

lemma wrapped_differs: "PDict [(key, r)] \<noteq> r"
proof
  assume "PDict [(key, r)] = r"
  then have "size (PDict [(key, r)]) = size r" by simp
  then show False by simp
qed

text \<open>Which tools treat the returned value in which way, by the tool's name.\<close>

lemma wrap_by_name:
  "wrap (shape c) =
     (if name (shape c) = ''get_audio_features'' then Placeholder ''audio_features''
      else if name (shape c) = ''get_current_playback'' then Placeholder ''playback''
      else if name (shape c) = ''get_current_user_playing_track'' then Placeholder ''track''
      else if name (shape c) = ''get_currently_playing'' then Placeholder ''currently_playing''
      else if name (shape c) = ''playlist_cover_image'' then Rewrap ''images''
      else if name (shape c) \<in> {''playlist_is_following'',
          ''check_current_user_following_artists'', ''check_current_user_following_users''}
        then Rewrap ''following''
      else if name (shape c) \<in> {''check_current_user_saved_albums'',
          ''check_current_user_saved_episodes'', ''check_current_user_saved_shows'',
          ''check_current_user_saved_tracks''}
        then Rewrap ''saved''
      else Passthrough)"
  by (cases c) simp_all

lemma finish_cases:
  "finish (wrap (shape c)) r = r
   \<or> (\<exists>key. key \<noteq> ''error'' \<and> \<not> truthy r \<and> wrap (shape c) = Placeholder key
         \<and> finish (wrap (shape c)) r = PDict [(key, PNone)])
   \<or> (\<exists>key. key \<noteq> ''error'' \<and> wrap (shape c) = Rewrap key
         \<and> finish (wrap (shape c)) r = PDict [(key, r)])"
  by (simp add: wrap_by_name)

text \<open>How the parameters of a request reach the method call.\<close>

lemma positional_forwarding:
  "args (shape c) = map snd (take (length (args (shape c))) (params c))"
  by (cases c) simp_all

lemma keyword_forwarding:
  "\<forall>(n, v) \<in> set (drop (length (args (shape c))) (params c)).
     if n = ''query'' then (''q'', v) \<in> set (kwargs (shape c))
     else if name (shape c) = ''get_playlist_items'' \<and> n = ''additional_types''
       then \<exists>s. v = PStr s \<and>
              (n, if s \<noteq> [] then PTuple (map PStr (split s CHR '',''))
                  else PTuple [PStr ''track'', PStr ''episode'']) \<in> set (kwargs (shape c))
     else (n, v) \<in> set (kwargs (shape c))"
  by (cases c) simp_all

lemma scripted_simps:
  "Spotify (scripted reply) token w =
     (if token = [] then Inl (Exception ''no token'') else Inr token, w + 1)"
  "call_method (scripted reply) h m a k w = (reply m, w + 1)"
  by (simp_all add: scripted_def)

lemma steady_simps:
  "Spotify (steady reply) token w =
     (if token = [] then Inl (Exception ''no token'') else Inr token, w)"
  "call_method (steady reply) h m a k w = (reply m, w)"
  by (simp_all add: steady_def)

lemma logged_simps:
  "Spotify (logged sp) token (w, lg) =
     (case Spotify sp token w of (r, w') \<Rightarrow> (r, (w', lg @ [Constructed token r])))"
  "call_method (logged sp) h m a k (w, lg) =
     (case call_method sp h m a k w of (r, w') \<Rightarrow> (r, (w', lg @ [Called h m a k r])))"
  by (simp_all add: logged_def)

lemmas run_simps =
  call_tool_perform perform_def error_result_def logged_simps scripted_simps steady_simps
  idle_reply_def demo_reply_def

text \<open>The method call found in the log of a run is the one of the catalogue.\<close>

lemma returned_call:
  assumes "call_tool (logged sp) c (w, []) = (res, (w', lg))"
    and "outcome lg = Some (Inr r)"
  shows "\<exists>h. calls lg = [(h, meth (shape c), args (shape c), kwargs (shape c))]"
  using assms(1)
proof (cases rule: call_tool_logged_cases)
  case (construct_failed e')
  with assms(2) show ?thesis by simp
next
  case (call_failed h w1 e')
  with assms(2) show ?thesis by simp
next
  case (returned h w1 r')
  then show ?thesis by simp
qed

lemma calls_shape:
  assumes "call_tool (logged sp) c (w, []) = (res, (w', lg))"
    and "calls lg = [(h, m, a, k)]"
  shows "m = meth (shape c) \<and> a = args (shape c) \<and> k = kwargs (shape c)"
  using assms(1)
proof (cases rule: call_tool_logged_cases)
  case (construct_failed e')
  with assms(2) show ?thesis by simp
next
  case (call_failed h' w1 e')
  with assms(2) show ?thesis by simp
next
  case (returned h' w1 r')
  with assms(2) show ?thesis by simp
qed

section \<open>The result of a tool\<close>

text \<open>
  C1, as stated: for every tool and every outcome of the delegated call the result is the
  raw response, a one-key placeholder or an error object, and it is always a mapping.  It
  fails on the code: \<^verbatim>\<open>get_devices\<close> hands on a returned \<^verbatim>\<open>None\<close>, which is no
  mapping, and \<^verbatim>\<open>check_current_user_saved_tracks\<close> returns the answer list under the
  key \<^verbatim>\<open>saved\<close>, which is none of the three shapes.
\<close>

theorem result_shapes_counterexample:
  "fst (call_tool (scripted idle_reply) (Get_devices ''tok'') 0) = PNone
   \<and> \<not> is_mapping (fst (call_tool (scripted idle_reply) (Get_devices ''tok'') 0))
   \<and> fst (call_tool (scripted demo_reply)
         (Check_current_user_saved_tracks ''tok'' [''id1'', ''id2'']) 0)
       = PDict [(''saved'', PList [PBool True, PBool False])]"
  by (simp del: call_tool.simps add: run_simps)

text \<open>
  C1, amended: for every tool and every outcome of the delegated work, the result is one of
  four shapes: the returned value unchanged, a dict with one key and the value
  \<^verbatim>\<open>None\<close>, a dict with one key holding the returned value, or the dict with the one key
  \<^verbatim>\<open>error\<close>.  The result is a mapping unless it is the returned value itself.  A result
  with a key \<^verbatim>\<open>error\<close> comes from a failure or is the returned value itself.
\<close>

theorem result_shapes:
  assumes "call_tool (logged sp) c (w, []) = (res, (w', lg))"
  shows "((\<exists>e. outcome lg = Some (Inl e)
              \<and> res = PDict [(''error'', PStr (failure_prefix (shape c) @ str e))])
          \<or> (\<exists>r. outcome lg = Some (Inr r)
              \<and> (res = r
                 \<or> (\<exists>key. key \<noteq> ''error''
                       \<and> (res = PDict [(key, PNone)] \<or> res = PDict [(key, r)])))))
       \<and> (is_mapping res \<or> outcome lg = Some (Inr res))
       \<and> (has_key ''error'' res \<longrightarrow>
            (\<exists>e. outcome lg = Some (Inl e)) \<or> outcome lg = Some (Inr res))"
proof -
  from outcome_exists [OF assms] obtain x where x: "outcome lg = Some x"
    by blast
  show ?thesis
  proof (cases x)
    case (Inl e)
    with x have "outcome lg = Some (Inl e)" by simp
    from outcome_raised [OF assms this]
    have "res = error_result (failure_prefix (shape c)) e" .
    with x Inl show ?thesis by (simp add: error_result_def)
  next
    case (Inr r)
    with x have "outcome lg = Some (Inr r)" by simp
    from outcome_returned [OF assms this]
    have res: "res = finish (wrap (shape c)) r" .
    from finish_cases [of c r] res x Inr show ?thesis by auto
  qed
qed

theorem result_shapes_witness:
  "outcome (snd (snd (call_tool (logged (scripted demo_reply))
       (Get_track_info [] ''abc123'') (0, []))))
     = Some (Inl (Exception ''no token''))
   \<and> fst (call_tool (logged (scripted demo_reply)) (Get_track_info [] ''abc123'') (0, []))
     = PDict [(''error'', PStr ''Failed to get track info: no token'')]"
proof -
  let ?run = "call_tool (logged (scripted demo_reply)) (Get_track_info [] ''abc123'') (0, [])"
  have run: "?run = (fst ?run, (fst (snd ?run), snd (snd ?run)))"
    by simp
  have out: "outcome (snd (snd ?run)) = Some (Inl (Exception ''no token''))"
    by (simp del: call_tool.simps add: run_simps)
  from result_shapes [OF run]
  have "(\<exists>e. outcome (snd (snd ?run)) = Some (Inl e)
            \<and> fst ?run = PDict [(''error'',
                  PStr (failure_prefix (shape (Get_track_info [] ''abc123'')) @ str e))])
        \<or> (\<exists>r. outcome (snd (snd ?run)) = Some (Inr r))"
    by blast
  then have "fst ?run = PDict [(''error'',
      PStr (failure_prefix (shape (Get_track_info [] ''abc123'')) @ ''no token''))]"
    unfolding out by auto
  with out show ?thesis
    by simp
qed

section \<open>Failures\<close>

text \<open>
  C2: for every tool, when building the client or the delegated call raises, nothing is
  raised by the tool; it returns the dict with the one key \<^verbatim>\<open>error\<close>, whose value is the
  fixed text of the tool followed by the description of the failure.  (A tool is a total
  function into values, so a result is returned in every case.)
\<close>

theorem failure_becomes_error_result:
  assumes "call_tool (logged sp) c (w, []) = (res, (w', lg))"
    and "outcome lg = Some (Inl e)"
  shows "res = PDict [(''error'', PStr (failure_prefix (shape c) @ str e))]"
  using outcome_raised [OF assms] by (simp add: error_result_def)

theorem failure_becomes_error_result_witness:
  "outcome (snd (snd (call_tool (logged (scripted demo_reply)) (Get_devices ''tok'') (0, []))))
     = Some (Inl (Exception ''offline''))
   \<and> fst (call_tool (logged (scripted demo_reply)) (Get_devices ''tok'') (0, []))
     = PDict [(''error'', PStr ''Failed to get devices: offline'')]"
proof -
  let ?run = "call_tool (logged (scripted demo_reply)) (Get_devices ''tok'') (0, [])"
  have run: "?run = (fst ?run, (fst (snd ?run), snd (snd ?run)))"
    by simp
  have out: "outcome (snd (snd ?run)) = Some (Inl (Exception ''offline''))"
    by (simp del: call_tool.simps add: run_simps)
  from failure_becomes_error_result [OF run out] out show ?thesis
    by simp
qed

section \<open>Returned values\<close>

text \<open>
  C3, as stated: for every tool, a returned non-empty response is the result, unmodified
  and without an error field.  It fails on the code: \<^verbatim>\<open>playlist_cover_image\<close> returns the
  list of images under the key \<^verbatim>\<open>images\<close>, and \<^verbatim>\<open>get_artist_info\<close> hands on a
  response that has a field \<^verbatim>\<open>error\<close> with that field.
\<close>

theorem response_unmodified_counterexample:
  "outcome (snd (snd (call_tool (logged (scripted demo_reply))
       (Playlist_cover_image ''tok'' ''p1'') (0, []))))
     = Some (Inr (PList [PDict [(''url'', PStr ''u'')]]))
   \<and> truthy (PList [PDict [(''url'', PStr ''u'')]])
   \<and> fst (call_tool (logged (scripted demo_reply)) (Playlist_cover_image ''tok'' ''p1'') (0, []))
     = PDict [(''images'', PList [PDict [(''url'', PStr ''u'')]])]
   \<and> fst (call_tool (logged (scripted demo_reply)) (Get_artist_info ''tok'' ''a1'') (0, []))
     = PDict [(''error'', PStr ''moved'')]
   \<and> outcome (snd (snd (call_tool (logged (scripted demo_reply))
       (Get_artist_info ''tok'' ''a1'') (0, []))))
     = Some (Inr (PDict [(''error'', PStr ''moved'')]))
   \<and> PDict [(''images'', PList [PDict [(''url'', PStr ''u'')]])]
     \<noteq> PList [PDict [(''url'', PStr ''u'')]]
   \<and> has_key ''error'' (PDict [(''error'', PStr ''moved'')])"
  by (simp del: call_tool.simps add: run_simps)

text \<open>
  C3, amended: when the delegated call returns a value that counts as true, every tool
  other than the eight that rewrap (\<^verbatim>\<open>playlist_cover_image\<close>,
  \<^verbatim>\<open>playlist_is_following\<close> and the six \<^verbatim>\<open>check_current_user_...\<close> tools) returns that
  value unmodified; those eight return a dict with one key, not \<^verbatim>\<open>error\<close>, holding the
  value unmodified.  The result has no error field unless the returned value has one.
\<close>

theorem response_returned:
  assumes "call_tool (logged sp) c (w, []) = (res, (w', lg))"
    and "outcome lg = Some (Inr r)"
    and "truthy r"
  shows "(name (shape c) \<notin> {''playlist_cover_image'', ''playlist_is_following'',
            ''check_current_user_following_artists'', ''check_current_user_following_users'',
            ''check_current_user_saved_albums'', ''check_current_user_saved_episodes'',
            ''check_current_user_saved_shows'', ''check_current_user_saved_tracks''}
          \<longrightarrow> res = r)
       \<and> (name (shape c) \<in> {''playlist_cover_image'', ''playlist_is_following'',
            ''check_current_user_following_artists'', ''check_current_user_following_users'',
            ''check_current_user_saved_albums'', ''check_current_user_saved_episodes'',
            ''check_current_user_saved_shows'', ''check_current_user_saved_tracks''}
          \<longrightarrow> (\<exists>key. key \<noteq> ''error'' \<and> res = PDict [(key, r)]))
       \<and> (\<not> has_key ''error'' r \<longrightarrow> \<not> has_key ''error'' res)"
proof -
  have res: "res = finish (wrap (shape c)) r"
    using outcome_returned [OF assms(1,2)] .
  show ?thesis unfolding res using assms(3) by (simp add: wrap_by_name)
qed

theorem response_returned_witness:
  "outcome (snd (snd (call_tool (logged (scripted demo_reply))
       (Get_track_info ''tok'' ''abc123'') (0, []))))
     = Some (Inr (PDict [(''id'', PStr ''abc123'')]))
   \<and> truthy (PDict [(''id'', PStr ''abc123'')])
   \<and> fst (call_tool (logged (scripted demo_reply)) (Get_track_info ''tok'' ''abc123'') (0, []))
     = PDict [(''id'', PStr ''abc123'')]"
proof -
  let ?run = "call_tool (logged (scripted demo_reply)) (Get_track_info ''tok'' ''abc123'') (0, [])"
  have run: "?run = (fst ?run, (fst (snd ?run), snd (snd ?run)))"
    by simp
  have out: "outcome (snd (snd ?run)) = Some (Inr (PDict [(''id'', PStr ''abc123'')]))"
    by (simp del: call_tool.simps add: run_simps)
  have tr: "truthy (PDict [(''id'', PStr ''abc123'')])"
    by simp
  from response_returned [OF run out tr] out tr show ?thesis
    by simp
qed

text \<open>
  C4: the tools for the track being played, the current playback and the audio features
  return their placeholder, a dict with the one documented key and the value \<^verbatim>\<open>None\<close>,
  when the delegated call returns an empty or absent value (one that counts as false);
  the result is then neither the empty dict nor \<^verbatim>\<open>None\<close>.
\<close>

theorem placeholder_when_absent:
  assumes "call_tool (logged sp) c (w, []) = (res, (w', lg))"
    and "outcome lg = Some (Inr r)"
    and "\<not> truthy r"
  shows "(c = Get_current_user_playing_track token \<longrightarrow> res = PDict [(''track'', PNone)])
       \<and> (c = Get_current_playback token market additional_types
            \<longrightarrow> res = PDict [(''playback'', PNone)])
       \<and> (c = Get_currently_playing token market additional_types
            \<longrightarrow> res = PDict [(''currently_playing'', PNone)])
       \<and> (c = Get_audio_features token tracks \<longrightarrow> res = PDict [(''audio_features'', PNone)])
       \<and> (name (shape c) \<in> {''get_current_user_playing_track'', ''get_current_playback'',
              ''get_currently_playing'', ''get_audio_features''}
            \<longrightarrow> res \<noteq> PDict [] \<and> res \<noteq> PNone)"
proof -
  have res: "res = finish (wrap (shape c)) r"
    using outcome_returned [OF assms(1,2)] .
  show ?thesis unfolding res using assms(3) by (auto simp: wrap_by_name)
qed

theorem placeholder_when_absent_witness:
  "outcome (snd (snd (call_tool (logged (scripted idle_reply))
       (Get_current_user_playing_track ''tok'') (0, []))))
     = Some (Inr PNone)
   \<and> \<not> truthy PNone
   \<and> fst (call_tool (logged (scripted idle_reply)) (Get_current_user_playing_track ''tok'') (0, []))
     = PDict [(''track'', PNone)]"
proof -
  let ?run = "call_tool (logged (scripted idle_reply)) (Get_current_user_playing_track ''tok'') (0, [])"
  have run: "?run = (fst ?run, (fst (snd ?run), snd (snd ?run)))"
    by simp
  have out: "outcome (snd (snd ?run)) = Some (Inr PNone)"
    by (simp del: call_tool.simps add: run_simps)
  have fl: "\<not> truthy PNone"
    by simp
  from placeholder_when_absent [OF run out fl, of "''tok''"] out fl show ?thesis
    by simp
qed

text \<open>
  C5: for each of the seven existence checks, when the delegated call returns the answer
  of the service for the list of identifiers of the request, one boolean per identifier in
  the order of the list, the result holds under the fixed key (\<^verbatim>\<open>saved\<close> or
  \<^verbatim>\<open>following\<close>) a list of as many booleans as there are identifiers, the one at each
  position being the answer for the identifier at that position; and the list of
  identifiers of the request is what was passed to the method.
\<close>

theorem existence_check_answers:
  assumes "(c \<in> {Check_current_user_saved_albums token ids,
                 Check_current_user_saved_episodes token ids,
                 Check_current_user_saved_shows token ids,
                 Check_current_user_saved_tracks token ids} \<and> key = ''saved'')
         \<or> (c \<in> {Check_current_user_following_artists token ids,
                 Check_current_user_following_users token ids,
                 Playlist_is_following token playlist_id ids} \<and> key = ''following'')"
    and "call_tool (logged sp) c (w, []) = (res, (w', lg))"
    and "outcome lg = Some (Inr (PList (map (\<lambda>i. PBool (answer i)) ids)))"
  shows "(\<exists>bs. res = PDict [(key, PList (map PBool bs))]
            \<and> length bs = length ids
            \<and> (\<forall>n < length ids. bs ! n = answer (ids ! n)))
       \<and> (\<exists>h m a k. calls lg = [(h, m, a, k)] \<and> str_list ids \<in> set a \<union> snd ` set k)"
proof -
  have res: "res = finish (wrap (shape c)) (PList (map (\<lambda>i. PBool (answer i)) ids))"
    using outcome_returned [OF assms(2,3)] .
  have "res = PDict [(key, PList (map PBool (map answer ids)))]"
    unfolding res using assms(1) by auto
  moreover have "length (map answer ids) = length ids"
    by simp
  moreover have "\<forall>n < length ids. map answer ids ! n = answer (ids ! n)"
    by simp
  ultimately have first: "\<exists>bs. res = PDict [(key, PList (map PBool bs))]
            \<and> length bs = length ids
            \<and> (\<forall>n < length ids. bs ! n = answer (ids ! n))"
    by blast
  from returned_call [OF assms(2,3)] obtain h where
    cl: "calls lg = [(h, meth (shape c), args (shape c), kwargs (shape c))]"
    by blast
  have "str_list ids \<in> set (args (shape c)) \<union> snd ` set (kwargs (shape c))"
    using assms(1) by auto
  with cl have "\<exists>h m a k. calls lg = [(h, m, a, k)] \<and> str_list ids \<in> set a \<union> snd ` set k"
    by blast
  with first show ?thesis
    by blast
qed

theorem existence_check_answers_witness:
  "outcome (snd (snd (call_tool (logged (scripted demo_reply))
       (Check_current_user_saved_tracks ''tok'' [''id1'', ''id2'']) (0, []))))
     = Some (Inr (PList [PBool True, PBool False]))
   \<and> (\<exists>bs. fst (call_tool (logged (scripted demo_reply))
              (Check_current_user_saved_tracks ''tok'' [''id1'', ''id2'']) (0, []))
            = PDict [(''saved'', PList (map PBool bs))]
          \<and> length bs = 2)"
proof -
  let ?c = "Check_current_user_saved_tracks ''tok'' [''id1'', ''id2'']"
  let ?run = "call_tool (logged (scripted demo_reply)) ?c (0, [])"
  have sel: "(?c \<in> {Check_current_user_saved_albums ''tok'' [''id1'', ''id2''],
                 Check_current_user_saved_episodes ''tok'' [''id1'', ''id2''],
                 Check_current_user_saved_shows ''tok'' [''id1'', ''id2''],
                 Check_current_user_saved_tracks ''tok'' [''id1'', ''id2'']}
              \<and> ''saved'' = ''saved'')
         \<or> (?c \<in> {Check_current_user_following_artists ''tok'' [''id1'', ''id2''],
                 Check_current_user_following_users ''tok'' [''id1'', ''id2''],
                 Playlist_is_following ''tok'' [] [''id1'', ''id2'']}
              \<and> ''saved'' = ''following'')"
    by simp
  have run: "?run = (fst ?run, (fst (snd ?run), snd (snd ?run)))"
    by simp
  have out: "outcome (snd (snd ?run))
      = Some (Inr (PList (map (\<lambda>i. PBool (i = ''id1'')) [''id1'', ''id2''])))"
    by (simp del: call_tool.simps add: run_simps)
  have out': "outcome (snd (snd ?run)) = Some (Inr (PList [PBool True, PBool False]))"
    using out by simp
  from existence_check_answers [OF sel run out]
  have "\<exists>bs. fst ?run = PDict [(''saved'', PList (map PBool bs))]
          \<and> length bs = length [''id1'', ''id2'']"
    by blast
  then have "\<exists>bs. fst ?run = PDict [(''saved'', PList (map PBool bs))] \<and> length bs = 2"
    by (simp add: numeral_2_eq_2)
  with out' show ?thesis
    by blast
qed

section \<open>Parameters\<close>

text \<open>
  C6, as stated: every parameter of every tool reaches the method call under its own name
  and with its value untouched.  It fails on the code: \<^verbatim>\<open>get_playlist_items\<close> splits its
  parameter \<^verbatim>\<open>additional_types\<close> at the commas and passes the tuple of the pieces, so the
  string of the request is not among the arguments of the call.
\<close>

theorem parameters_forwarded_counterexample:
  "calls (snd (snd (call_tool (logged (scripted idle_reply))
       (Get_playlist_items ''tok'' ''p1'' None 100 0 None ''track,episode'') (0, []))))
     = [(''tok'', ''playlist_items'', [PStr ''p1''],
         [(''fields'', PNone), (''limit'', PInt 100), (''offset'', PInt 0),
          (''market'', PNone),
          (''additional_types'', PTuple [PStr ''track'', PStr ''episode''])])]
   \<and> params (Get_playlist_items ''tok'' ''p1'' None 100 0 None ''track,episode'')
     = [(''playlist_id'', PStr ''p1''), (''fields'', PNone), (''limit'', PInt 100),
        (''offset'', PInt 0), (''market'', PNone),
        (''additional_types'', PStr ''track,episode'')]
   \<and> PTuple [PStr ''track'', PStr ''episode''] \<noteq> PStr ''track,episode''"
  by (simp del: call_tool.simps add: run_simps)

text \<open>
  C6, amended: the positional arguments of the method call are the first parameters of the
  tool, in order and unchanged; every other parameter is passed as a keyword argument with
  its value unchanged and under its own name, except that the search tools pass
  \<^verbatim>\<open>query\<close> under the name \<^verbatim>\<open>q\<close>, and that \<^verbatim>\<open>get_playlist_items\<close> passes, under the
  name \<^verbatim>\<open>additional_types\<close>, the tuple of the pieces of that string between its commas,
  or the tuple of \<^verbatim>\<open>track\<close> and \<^verbatim>\<open>episode\<close> when the string is empty.
\<close>

theorem parameters_forwarded:
  assumes "call_tool (logged sp) c (w, []) = (res, (w', lg))"
    and "calls lg = [(h, m, a, k)]"
  shows "a = map snd (take (length a) (params c))
       \<and> (\<forall>(n, v) \<in> set (drop (length a) (params c)).
            if n = ''query'' then (''q'', v) \<in> set k
            else if name (shape c) = ''get_playlist_items'' \<and> n = ''additional_types''
              then \<exists>s. v = PStr s \<and>
                     (n, if s \<noteq> [] then PTuple (map PStr (split s CHR '',''))
                         else PTuple [PStr ''track'', PStr ''episode'']) \<in> set k
            else (n, v) \<in> set k)"
proof -
  from calls_shape [OF assms] have a: "a = args (shape c)" and k: "k = kwargs (shape c)"
    by simp_all
  show ?thesis
    unfolding a k using positional_forwarding [of c] keyword_forwarding [of c]
    by (rule conjI)
qed

theorem parameters_forwarded_witness:
  "calls (snd (snd (call_tool (logged (scripted demo_reply))
       (Search_tracks ''tok'' ''jazz'' 10 0) (0, []))))
     = [(''tok'', ''search'', [],
         [(''q'', PStr ''jazz''), (''type'', PStr ''track''), (''limit'', PInt 10),
          (''offset'', PInt 0)])]
   \<and> [] = map snd (take (length ([] :: pyval list)) (params (Search_tracks ''tok'' ''jazz'' 10 0)))"
proof -
  let ?c = "Search_tracks ''tok'' ''jazz'' 10 0"
  let ?run = "call_tool (logged (scripted demo_reply)) ?c (0, [])"
  have run: "?run = (fst ?run, (fst (snd ?run), snd (snd ?run)))"
    by simp
  have cl: "calls (snd (snd ?run))
     = [(''tok'', ''search'', [],
         [(''q'', PStr ''jazz''), (''type'', PStr ''track''), (''limit'', PInt 10),
          (''offset'', PInt 0)])]"
    by (simp del: call_tool.simps add: run_simps)
  from parameters_forwarded [OF run cl]
  have "[] = map snd (take (length ([] :: pyval list)) (params ?c))"
    by (rule conjunct1)
  with cl show ?thesis
    by (rule conjI)
qed

section \<open>Effects\<close>

text \<open>
  C7: every invocation of a tool, whatever happened before it, builds one client from the
  token of the request and, through the client it got, makes exactly one method call;
  nothing else is called, no call is made when no client could be built, and the tool
  keeps nothing: its result and its effect on the world are those of that construction
  and that call.
\<close>

theorem one_client_one_call:
  assumes "call_tool (logged sp) c (w, lg) = (res, (w', lg'))"
  shows "call_tool sp c w = (res, w')
       \<and> ((\<exists>e. Spotify sp (auth (shape c)) w = (Inl e, w')
                \<and> lg' = lg @ [Constructed (auth (shape c)) (Inl e)])
          \<or> (\<exists>h w1 m a k r. Spotify sp (auth (shape c)) w = (Inr h, w1)
                \<and> call_method sp h m a k w1 = (r, w')
                \<and> lg' = lg @ [Constructed (auth (shape c)) (Inr h), Called h m a k r]))"
  using assms
proof (cases rule: call_tool_logged_cases)
  case (construct_failed e)
  then show ?thesis
    by (simp add: call_tool_perform perform_def)
next
  case (call_failed h w1 e)
  have "call_tool sp c w = (res, w')"
    using call_failed by (simp add: call_tool_perform perform_def)
  with call_failed show ?thesis
    by blast
next
  case (returned h w1 r)
  have "call_tool sp c w = (res, w')"
    using returned by (simp add: call_tool_perform perform_def)
  with returned show ?thesis
    by blast
qed

theorem one_client_one_call_witness:
  "call_tool (scripted demo_reply) (Get_album_info ''tok'' ''a1'' None) 0
     = (fst (call_tool (logged (scripted demo_reply)) (Get_album_info ''tok'' ''a1'' None)
              (0, [])),
        fst (snd (call_tool (logged (scripted demo_reply)) (Get_album_info ''tok'' ''a1'' None)
              (0, []))))"
proof -
  let ?run = "call_tool (logged (scripted demo_reply)) (Get_album_info ''tok'' ''a1'' None) (0, [])"
  have run: "?run = (fst ?run, (fst (snd ?run), snd (snd ?run)))"
    by simp
  from one_client_one_call [OF run] show ?thesis
    by (rule conjunct1)
qed

text \<open>
  C8: against a service whose state no call changes, a tool leaves the state as it was,
  and invoking it again with the same token and the same arguments gives the same result.
\<close>

theorem repeated_call_same_result:
  assumes "\<forall>t v. snd (Spotify sp t v) = v"
    and "\<forall>h m a k v. snd (call_method sp h m a k v) = v"
  shows "snd (call_tool sp c w) = w
       \<and> call_tool sp c (snd (call_tool sp c w)) = call_tool sp c w"
proof -
  have same: "snd (call_tool sp c w) = w"
  proof (cases "Spotify sp (auth (shape c)) w")
    case (Pair x w1)
    with assms(1) have w1: "w1 = w"
      by (metis snd_conv)
    show ?thesis
    proof (cases x)
      case (Inl e)
      with Pair w1 show ?thesis
        by (simp add: call_tool_perform perform_def)
    next
      case (Inr h)
      obtain y w2 where call: "call_method sp h (meth (shape c)) (args (shape c))
          (kwargs (shape c)) w = (y, w2)"
        by (cases "call_method sp h (meth (shape c)) (args (shape c)) (kwargs (shape c)) w")
      with assms(2) have w2: "w2 = w"
        by (metis snd_conv)
      from Pair Inr w1 call w2 show ?thesis
        by (cases y) (simp_all add: call_tool_perform perform_def)
    qed
  qed
  then show ?thesis
    by simp
qed

theorem repeated_call_same_result_witness:
  "call_tool (steady demo_reply) (Get_track_info ''tok'' ''abc123'')
       (snd (call_tool (steady demo_reply) (Get_track_info ''tok'' ''abc123'') 7))
     = call_tool (steady demo_reply) (Get_track_info ''tok'' ''abc123'') 7"
proof -
  have h1: "\<forall>t v. snd (Spotify (steady demo_reply) t v) = v"
    by (simp add: steady_simps)
  have h2: "\<forall>h m a k v. snd (call_method (steady demo_reply) h m a k v) = v"
    by (simp add: steady_simps)
  from repeated_call_same_result [OF h1 h2] show ?thesis
    by (rule conjunct2)
qed

section \<open>Placeholders and rewraps\<close>

text \<open>
  C9, as stated: four tools put their placeholder in the place of a false value and every
  other tool returns the delegated value unchanged, also when it is \<^verbatim>\<open>None\<close>.  It fails
  on the code: \<^verbatim>\<open>check_current_user_saved_tracks\<close> is none of the four and returns, for
  a delegated \<^verbatim>\<open>None\<close>, a dict holding it under the key \<^verbatim>\<open>saved\<close>.
\<close>

theorem placeholder_tools_counterexample:
  "outcome (snd (snd (call_tool (logged (scripted idle_reply))
       (Check_current_user_saved_tracks ''tok'' [''id1'']) (0, []))))
     = Some (Inr PNone)
   \<and> fst (call_tool (logged (scripted idle_reply))
       (Check_current_user_saved_tracks ''tok'' [''id1'']) (0, []))
     = PDict [(''saved'', PNone)]
   \<and> PDict [(''saved'', PNone)] \<noteq> PNone"
  by (simp del: call_tool.simps add: run_simps)

text \<open>
  C9, amended: exactly the four tools \<^verbatim>\<open>get_audio_features\<close>,
  \<^verbatim>\<open>get_current_playback\<close>, \<^verbatim>\<open>get_current_user_playing_track\<close> and
  \<^verbatim>\<open>get_currently_playing\<close> put their placeholder in the place of the delegated value,
  and they do so exactly when that value counts as false (\<^verbatim>\<open>None\<close>, an empty dict, an empty
  list); the eight tools that rewrap return the delegated value under their key, and every
  other tool returns it unchanged, in both cases also when it is \<^verbatim>\<open>None\<close>.
\<close>

theorem placeholder_by_truthiness:
  assumes "call_tool (logged sp) c (w, []) = (res, (w', lg))"
    and "outcome lg = Some (Inr r)"
  shows "(name (shape c) \<in> {''get_audio_features'', ''get_current_playback'',
              ''get_current_user_playing_track'', ''get_currently_playing''}
            \<longrightarrow> (\<exists>key. res = (if truthy r then r else PDict [(key, PNone)])))
       \<and> (name (shape c) \<in> {''playlist_cover_image'', ''playlist_is_following'',
              ''check_current_user_following_artists'', ''check_current_user_following_users'',
              ''check_current_user_saved_albums'', ''check_current_user_saved_episodes'',
              ''check_current_user_saved_shows'', ''check_current_user_saved_tracks''}
            \<longrightarrow> (\<exists>key. res = PDict [(key, r)]))
       \<and> (name (shape c) \<notin> {''get_audio_features'', ''get_current_playback'',
              ''get_current_user_playing_track'', ''get_currently_playing'',
              ''playlist_cover_image'', ''playlist_is_following'',
              ''check_current_user_following_artists'', ''check_current_user_following_users'',
              ''check_current_user_saved_albums'', ''check_current_user_saved_episodes'',
              ''check_current_user_saved_shows'', ''check_current_user_saved_tracks''}
            \<longrightarrow> res = r)
       \<and> \<not> truthy PNone \<and> \<not> truthy (PDict []) \<and> \<not> truthy (PList [])"
proof -
  have res: "res = finish (wrap (shape c)) r"
    using outcome_returned [OF assms] .
  show ?thesis unfolding res by (simp add: wrap_by_name)
qed

theorem placeholder_by_truthiness_witness:
  "outcome (snd (snd (call_tool (logged (scripted idle_reply)) (Get_queue ''tok'') (0, []))))
     = Some (Inr PNone)
   \<and> fst (call_tool (logged (scripted idle_reply)) (Get_queue ''tok'') (0, [])) = PNone"
proof -
  let ?run = "call_tool (logged (scripted idle_reply)) (Get_queue ''tok'') (0, [])"
  have run: "?run = (fst ?run, (fst (snd ?run), snd (snd ?run)))"
    by simp
  have out: "outcome (snd (snd ?run)) = Some (Inr PNone)"
    by (simp del: call_tool.simps add: run_simps)
  from placeholder_by_truthiness [OF run out] out show ?thesis
    by simp
qed

text \<open>
  C10: whenever its delegated call returns a value, \<^verbatim>\<open>None\<close> and the empty list
  included, \<^verbatim>\<open>playlist_cover_image\<close> returns the dict with the one key \<^verbatim>\<open>images\<close>
  holding that value.  The result is never the value itself, and the value is never
  replaced by \<^verbatim>\<open>None\<close>.
\<close>

theorem cover_image_rewrapped:
  assumes "Spotify sp token w = (Inr h, w1)"
    and "call_method sp h ''playlist_cover_image'' [PStr playlist_id] [] w1 = (Inr r, w2)"
  shows "playlist_cover_image sp token playlist_id w = (PDict [(''images'', r)], w2)
       \<and> PDict [(''images'', r)] \<noteq> r"
  using assms by (simp add: playlist_cover_image_def tool_body wrapped_differs)

theorem cover_image_rewrapped_witness:
  "playlist_cover_image (scripted idle_reply) ''tok'' ''p1'' 0
     = (PDict [(''images'', PNone)], 2)"
proof -
  have c: "Spotify (scripted idle_reply) ''tok'' 0 = (Inr ''tok'', 1)"
    by (simp add: scripted_simps)
  have m: "call_method (scripted idle_reply) ''tok'' ''playlist_cover_image'' [PStr ''p1''] [] 1
      = (Inr PNone, 2)"
    by (simp add: scripted_simps idle_reply_def)
  from cover_image_rewrapped [OF c m] show ?thesis
    by (rule conjunct1)
qed

end
